theory Spec2Isabelle
  imports Main "HOL-Library.Word" "HOL-Library.AList"
begin

section \<open>Errors\<close>

text \<open>
  The reason carried by an API status error (k8s.io/apimachinery, metav1.StatusReason).
  Only the three reasons the operator tests for are named; every other reason
  (timeouts, server errors, ...) is \<open>StatusReasonOther\<close>.
\<close>

datatype statusReason =
    StatusReasonNotFound
  | StatusReasonAlreadyExists
  | StatusReasonConflict
  | StatusReasonOther string

text \<open>
  Go error values: an API status error (reason and message), a plain error holding only
  its text (errors.New, and fmt.Errorf without the verb %w), and an error that wraps
  another one (fmt.Errorf with %w: its own text and the wrapped error).
\<close>

datatype error =
    StatusError statusReason string
  | ErrorString string
  | WrapError string error

text \<open>err.Error(): the text of an error.\<close>

fun Error :: "error \<Rightarrow> string" where
  "Error (StatusError r m) = m"
| "Error (ErrorString m) = m"
| "Error (WrapError m e) = m"

text \<open>apierrors.ReasonForError: the reason of the first status error on the Unwrap chain.\<close>

fun ReasonForError :: "error \<Rightarrow> statusReason" where
  "ReasonForError (StatusError r m) = r"
| "ReasonForError (ErrorString m) = StatusReasonOther []"
| "ReasonForError (WrapError m e) = ReasonForError e"

definition IsNotFound :: "error \<Rightarrow> bool" where
  "IsNotFound err = (ReasonForError err = StatusReasonNotFound)"

definition IsAlreadyExists :: "error \<Rightarrow> bool" where
  "IsAlreadyExists err = (ReasonForError err = StatusReasonAlreadyExists)"

definition IsConflict :: "error \<Rightarrow> bool" where
  "IsConflict err = (ReasonForError err = StatusReasonConflict)"

text \<open>
  fmt.Errorf(prefix + "%v", err) keeps only the text of \<open>err\<close>;
  fmt.Errorf(prefix + "%w", err) has the same text and wraps \<open>err\<close>.
\<close>

definition ErrorfV :: "string \<Rightarrow> error \<Rightarrow> error" where
  "ErrorfV prefix err = ErrorString (prefix @ Error err)"

definition ErrorfW :: "string \<Rightarrow> error \<Rightarrow> error" where
  "ErrorfW prefix err = WrapError (prefix @ Error err) err"

text \<open>A nil-pointer dereference panics; a function that can reach one returns an outcome.\<close>

datatype 'a outcome = Panic | Return 'a

section \<open>Objects\<close>

text \<open>types.NamespacedName as the pair (Namespace, Name); its String() joins them with a slash.\<close>

type_synonym namespacedName = "string \<times> string"

definition nnString :: "namespacedName \<Rightarrow> string" where
  "nnString nm = fst nm @ ''/'' @ snd nm"

text \<open>
  metav1.ObjectMeta, embedded in every object. A Go map that may be nil is an optional
  map; the resource version (the store's concurrency token) is a counter, 0 when unset.
\<close>

record objectMeta =
  Name :: string
  Namespace :: string
  Labels :: "(string \<rightharpoonup> string) option"
  Annotations :: "(string \<rightharpoonup> string) option"
  ResourceVersion :: nat

definition objKey :: "'a objectMeta_scheme \<Rightarrow> namespacedName" where
  "objKey obj = (Namespace obj, Name obj)"

text \<open>Indexing a Go map of strings: the empty string when the key is missing.\<close>

definition mapIndex :: "(string \<rightharpoonup> string) \<Rightarrow> string \<Rightarrow> string" where
  "mapIndex m k = (case m k of None \<Rightarrow> [] | Some v \<Rightarrow> v)"

section \<open>The object store behind client.Client\<close>

text \<open>
  Modelled from the spec: the external object store of sections 3 and 6 (get, list,
  create, update, status patch and delete, with optimistic concurrency on the resource
  version), which the repository reaches through controller-runtime's client and does
  not implement. The store holds the objects of one kind, keyed by namespaced name.
  Every call is appended to \<open>calls\<close> with its answer; \<open>faults\<close> tells, for the call with a given
  index, whether the store answers with an injected error (a transport failure, or the
  visible outcome of a race with another actor) instead of acting on its contents.
\<close>

datatype 'o call =
    GetCall namespacedName
  | ListCall
  | CreateCall 'o
  | UpdateCall 'o
  | DeleteCall 'o
  | StatusPatchCall 'o

record 'o store =
  objs :: "(namespacedName \<times> 'o) list"
  faults :: "nat \<Rightarrow> error option"
  calls :: "('o call \<times> error option) list"

definition isWrite :: "'o call \<Rightarrow> bool" where
  "isWrite c = (case c of GetCall k \<Rightarrow> False | ListCall \<Rightarrow> False | _ \<Rightarrow> True)"

definition isDelete :: "'o call \<Rightarrow> bool" where
  "isDelete c = (case c of DeleteCall obj \<Rightarrow> True | _ \<Rightarrow> False)"

definition fault :: "'o store \<Rightarrow> error option" where
  "fault s = faults s (length (calls s))"

text \<open>Appending a call and the error it was answered with (None for success) to the log.\<close>

definition called :: "'o call \<Rightarrow> error option \<Rightarrow> 'o store \<Rightarrow> 'o store" where
  "called c answer s = s\<lparr>calls := calls s @ [(c, answer)]\<rparr>"

definition errNotFound :: error where
  "errNotFound = StatusError StatusReasonNotFound ''not found''"

definition errAlreadyExists :: error where
  "errAlreadyExists = StatusError StatusReasonAlreadyExists ''already exists''"

definition errConflict :: error where
  "errConflict = StatusError StatusReasonConflict ''the object has been modified''"

definition clientGet ::
  "namespacedName \<Rightarrow> 'o store \<Rightarrow> (error + 'o) \<times> 'o store" where
  "clientGet key s =
     (case fault s of
        Some err \<Rightarrow> (Inl err, called (GetCall key) (Some err) s)
      | None \<Rightarrow>
          (case map_of (objs s) key of
             None \<Rightarrow> (Inl errNotFound, called (GetCall key) (Some errNotFound) s)
           | Some obj \<Rightarrow> (Inr obj, called (GetCall key) None s)))"

definition clientList :: "'o store \<Rightarrow> (error + 'o list) \<times> 'o store" where
  "clientList s =
     (case fault s of
        Some err \<Rightarrow> (Inl err, called ListCall (Some err) s)
      | None \<Rightarrow> (Inr (map snd (objs s)), called ListCall None s))"

definition clientCreate ::
  "'a objectMeta_scheme \<Rightarrow> 'a objectMeta_scheme store
     \<Rightarrow> error option \<times> 'a objectMeta_scheme store" where
  "clientCreate obj s =
     (case fault s of
        Some err \<Rightarrow> (Some err, called (CreateCall obj) (Some err) s)
      | None \<Rightarrow>
          (case map_of (objs s) (objKey obj) of
             Some cur \<Rightarrow> (Some errAlreadyExists, called (CreateCall obj) (Some errAlreadyExists) s)
           | None \<Rightarrow>
               (None, called (CreateCall obj) None
                  (s\<lparr>objs := AList.update (objKey obj) (obj\<lparr>ResourceVersion := 1\<rparr>) (objs s)\<rparr>))))"

definition clientUpdate ::
  "'a objectMeta_scheme \<Rightarrow> 'a objectMeta_scheme store
     \<Rightarrow> error option \<times> 'a objectMeta_scheme store" where
  "clientUpdate obj s =
     (case fault s of
        Some err \<Rightarrow> (Some err, called (UpdateCall obj) (Some err) s)
      | None \<Rightarrow>
          (case map_of (objs s) (objKey obj) of
             None \<Rightarrow> (Some errNotFound, called (UpdateCall obj) (Some errNotFound) s)
           | Some cur \<Rightarrow>
               if ResourceVersion obj \<noteq> 0 \<and> ResourceVersion obj \<noteq> ResourceVersion cur
               then (Some errConflict, called (UpdateCall obj) (Some errConflict) s)
               else (None, called (UpdateCall obj) None
                       (s\<lparr>objs := AList.update (objKey obj)
                                    (obj\<lparr>ResourceVersion := Suc (ResourceVersion cur)\<rparr>)
                                    (objs s)\<rparr>))))"

definition clientDelete ::
  "'a objectMeta_scheme \<Rightarrow> 'a objectMeta_scheme store
     \<Rightarrow> error option \<times> 'a objectMeta_scheme store" where
  "clientDelete obj s =
     (case fault s of
        Some err \<Rightarrow> (Some err, called (DeleteCall obj) (Some err) s)
      | None \<Rightarrow>
          (case map_of (objs s) (objKey obj) of
             None \<Rightarrow> (Some errNotFound, called (DeleteCall obj) (Some errNotFound) s)
           | Some cur \<Rightarrow>
               (None, called (DeleteCall obj) None
                  (s\<lparr>objs := AList.delete (objKey obj) (objs s)\<rparr>))))"

text \<open>
  A status patch built with client.MergeFrom carries no resource version, so it never
  conflicts on its own account; \<open>patch\<close> is the change it makes to the stored object.
\<close>

definition clientStatusPatch ::
  "'a objectMeta_scheme \<Rightarrow> ('a objectMeta_scheme \<Rightarrow> 'a objectMeta_scheme)
     \<Rightarrow> 'a objectMeta_scheme store \<Rightarrow> error option \<times> 'a objectMeta_scheme store" where
  "clientStatusPatch obj patch s =
     (case fault s of
        Some err \<Rightarrow> (Some err, called (StatusPatchCall obj) (Some err) s)
      | None \<Rightarrow>
          (case map_of (objs s) (objKey obj) of
             None \<Rightarrow> (Some errNotFound, called (StatusPatchCall obj) (Some errNotFound) s)
           | Some cur \<Rightarrow>
               (None, called (StatusPatchCall obj) None
                  (s\<lparr>objs := AList.update (objKey obj)
                               ((patch cur)\<lparr>ResourceVersion := Suc (ResourceVersion cur)\<rparr>)
                               (objs s)\<rparr>))))"

section \<open>pkg/operator/controller/ingress/trustedca\_configmap.go\<close>

record configMap = objectMeta +
  Data :: "(string \<rightharpoonup> string) option"

definition injectLabel :: string where
  "injectLabel = ''config.openshift.io/inject-trusted-cabundle''"

text \<open>
  desiredTrustedCAConfigMap. controller.TrustedCAConfigMapName() is declared outside
  these sources; the name is the parameter \<open>name\<close>.
\<close>

definition desiredTrustedCAConfigMap ::
  "namespacedName \<Rightarrow> bool \<times> configMap \<times> error option" where
  "desiredTrustedCAConfigMap name =
     (True,
      \<lparr>Name = snd name, Namespace = fst name,
       Labels = Some [injectLabel \<mapsto> ''true''],
       Annotations = Some [''description'' \<mapsto> ''ConfigMap providing service CA bundle.''],
       ResourceVersion = 0,
       Data = None\<rparr>,
      None)"

definition currentTrustedCAConfigMap ::
  "namespacedName \<Rightarrow> configMap store
     \<Rightarrow> (bool \<times> configMap option \<times> error option) \<times> configMap store" where
  "currentTrustedCAConfigMap name s =
     (case clientGet name s of
        (Inl err, s') \<Rightarrow>
          if IsNotFound err then ((False, None, None), s')
          else ((False, None, Some err), s')
      | (Inr cm, s') \<Rightarrow> ((True, Some cm, None), s'))"

text \<open>
  updateTrustedCAConfigMap. The copy that is sent to the store is \<open>updatedConfigMap\<close>:
  the current object with the label map allocated when it was nil and the one label set.
\<close>

definition updatedConfigMap :: "configMap \<Rightarrow> configMap" where
  "updatedConfigMap current =
     current\<lparr>Labels :=
       Some ((case Labels current of None \<Rightarrow> Map.empty | Some m \<Rightarrow> m)(injectLabel \<mapsto> ''true''))\<rparr>"

definition labelIsSet :: "configMap \<Rightarrow> bool" where
  "labelIsSet current =
     (case Labels current of None \<Rightarrow> False | Some m \<Rightarrow> mapIndex m injectLabel = ''true'')"

definition updateTrustedCAConfigMap ::
  "configMap \<Rightarrow> configMap \<Rightarrow> configMap store \<Rightarrow> (bool \<times> error option) \<times> configMap store" where
  "updateTrustedCAConfigMap current desired s =
     (if labelIsSet current then ((False, None), s)
      else
        (case clientUpdate (updatedConfigMap current) s of
           (Some err, s') \<Rightarrow>
             if IsAlreadyExists err then ((False, None), s') else ((False, Some err), s')
         | (None, s') \<Rightarrow> ((True, None), s')))"

text \<open>
  ensureTrustedCAConfigMap, with the function that computes the desired configmap as a
  parameter, so that each branch of the switch can be exercised. A nil \<open>current\<close> with
  \<open>haveCM\<close> true would be dereferenced by the delete and by the update.
\<close>

definition ensureTrustedCAConfigMapWith ::
  "(bool \<times> configMap \<times> error option) \<Rightarrow> namespacedName \<Rightarrow> configMap store
     \<Rightarrow> (bool \<times> configMap option \<times> error option) outcome \<times> configMap store" where
  "ensureTrustedCAConfigMapWith desiredResult name s =
     (case desiredResult of
        (wantCM, desired, Some err) \<Rightarrow>
          (Return (False, None, Some (ErrorfV ''failed to build configmap: '' err)), s)
      | (wantCM, desired, None) \<Rightarrow>
          (case currentTrustedCAConfigMap name s of
             ((haveCM, current, Some err), s1) \<Rightarrow> (Return (False, None, Some err), s1)
           | ((haveCM, current, None), s1) \<Rightarrow>
               if \<not> wantCM \<and> \<not> haveCM then (Return (False, None, None), s1)
               else if \<not> wantCM \<and> haveCM then
                 (case current of
                    None \<Rightarrow> (Panic, s1)
                  | Some cur \<Rightarrow>
                      (case clientDelete cur s1 of
                         (Some err, s2) \<Rightarrow>
                           if \<not> IsNotFound err
                           then (Return (True, current,
                                   Some (ErrorfV ''failed to delete configmap: '' err)), s2)
                           else (Return (False, None, None), s2)
                       | (None, s2) \<Rightarrow> (Return (False, None, None), s2)))
               else if wantCM \<and> \<not> haveCM then
                 (case clientCreate desired s1 of
                    (Some err, s2) \<Rightarrow>
                      (Return (False, None, Some (ErrorfV ''failed to create configmap: '' err)), s2)
                  | (None, s2) \<Rightarrow>
                      (case currentTrustedCAConfigMap name s2 of (r, s3) \<Rightarrow> (Return r, s3)))
               else
                 (case current of
                    None \<Rightarrow> (Panic, s1)
                  | Some cur \<Rightarrow>
                      (case updateTrustedCAConfigMap cur desired s1 of
                         ((updated, Some err), s2) \<Rightarrow>
                           (Return (True, current,
                              Some (ErrorfV ''failed to update configmap: '' err)), s2)
                       | ((updated, None), s2) \<Rightarrow>
                           if updated
                           then (case currentTrustedCAConfigMap name s2 of
                                   (r, s3) \<Rightarrow> (Return r, s3))
                           else (Return (True, current, None), s2)))))"

definition ensureTrustedCAConfigMap ::
  "namespacedName \<Rightarrow> configMap store
     \<Rightarrow> (bool \<times> configMap option \<times> error option) outcome \<times> configMap store" where
  "ensureTrustedCAConfigMap name s =
     ensureTrustedCAConfigMapWith (desiredTrustedCAConfigMap name) name s"

section \<open>pkg/operator/controller/gatewayclass/subscription.go\<close>

text \<open>
  operatorsv1alpha1.Subscription. SubscriptionConfig is declared by the
  operator-framework API and is left abstract; how cmp.Equal with cmpopts.EquateEmpty
  compares two of its values is the parameter \<open>configEqual\<close> of the comparator. Of the
  status, which this package neither reads nor writes, three fields are kept.
\<close>

typedecl subscriptionConfig

record subscriptionSpec =
  CatalogSource :: string
  CatalogSourceNamespace :: string
  Package :: string
  Channel :: string
  StartingCSV :: string
  InstallPlanApproval :: string
  Config :: "subscriptionConfig option"

record subscriptionStatus =
  CurrentCSV :: string
  InstalledCSV :: string
  State :: string

record subscription = objectMeta +
  Spec :: "subscriptionSpec option"
  Status :: subscriptionStatus

definition serviceMeshOperatorDesiredVersion :: string where
  "serviceMeshOperatorDesiredVersion = ''servicemeshoperator.v2.5.0''"

definition ApprovalManual :: string where
  "ApprovalManual = ''Manual''"

text \<open>desiredSubscription: the zero value of every field that the literal does not set.\<close>

definition desiredSubscription :: "namespacedName \<Rightarrow> subscription \<times> error option" where
  "desiredSubscription name =
     (\<lparr>Name = snd name, Namespace = fst name,
       Labels = None, Annotations = None, ResourceVersion = 0,
       Spec = Some \<lparr>CatalogSource = ''redhat-operators'',
                     CatalogSourceNamespace = ''openshift-marketplace'',
                     Package = ''servicemeshoperator'',
                     Channel = ''stable'',
                     StartingCSV = serviceMeshOperatorDesiredVersion,
                     InstallPlanApproval = ApprovalManual,
                     Config = None\<rparr>,
       Status = \<lparr>CurrentCSV = [], InstalledCSV = [], State = []\<rparr>\<rparr>,
      None)"

definition currentSubscription ::
  "namespacedName \<Rightarrow> subscription store
     \<Rightarrow> (bool \<times> subscription option \<times> error option) \<times> subscription store" where
  "currentSubscription name s =
     (case clientGet name s of
        (Inl err, s') \<Rightarrow>
          if IsNotFound err then ((False, None, None), s')
          else ((False, None,
                 Some (ErrorfW (''failed to get subscription '' @ nnString name @ '': '') err)), s')
      | (Inr sub, s') \<Rightarrow> ((True, Some sub, None), s'))"

definition createSubscription ::
  "subscription \<Rightarrow> subscription store \<Rightarrow> error option \<times> subscription store" where
  "createSubscription sub s =
     (case clientCreate sub s of
        (Some err, s') \<Rightarrow>
          (Some (ErrorfW (''failed to create subscription '' @ Namespace sub @ ''/'' @ Name sub
                          @ '': '') err), s')
      | (None, s') \<Rightarrow> (None, s'))"

text \<open>
  cmp.Equal(current.Spec, expected.Spec, cmpopts.EquateEmpty()) on two pointers to
  SubscriptionSpec: two nil pointers are equal, a nil and a non-nil pointer are not, and
  two non-nil pointers are compared field by field; EquateEmpty only matters inside
  Config, the one field that holds slices and maps.
\<close>

definition specEqual ::
  "(subscriptionConfig \<Rightarrow> subscriptionConfig \<Rightarrow> bool)
     \<Rightarrow> subscriptionSpec option \<Rightarrow> subscriptionSpec option \<Rightarrow> bool" where
  "specEqual configEqual a b =
     (case (a, b) of
        (None, None) \<Rightarrow> True
      | (Some x, Some y) \<Rightarrow>
          CatalogSource x = CatalogSource y \<and>
          CatalogSourceNamespace x = CatalogSourceNamespace y \<and>
          Package x = Package y \<and>
          Channel x = Channel y \<and>
          StartingCSV x = StartingCSV y \<and>
          InstallPlanApproval x = InstallPlanApproval y \<and>
          (case (Config x, Config y) of
             (None, None) \<Rightarrow> True
           | (Some c, Some d) \<Rightarrow> configEqual c d
           | _ \<Rightarrow> False)
      | _ \<Rightarrow> False)"

definition subscriptionChanged ::
  "(subscriptionConfig \<Rightarrow> subscriptionConfig \<Rightarrow> bool)
     \<Rightarrow> subscription \<Rightarrow> subscription \<Rightarrow> bool \<times> subscription option" where
  "subscriptionChanged configEqual current expected =
     (if specEqual configEqual (Spec current) (Spec expected) then (False, None)
      else (True, Some (current\<lparr>Spec := Spec expected\<rparr>)))"

definition updateSubscription ::
  "(subscriptionConfig \<Rightarrow> subscriptionConfig \<Rightarrow> bool)
     \<Rightarrow> subscription \<Rightarrow> subscription \<Rightarrow> subscription store
     \<Rightarrow> (bool \<times> error option) outcome \<times> subscription store" where
  "updateSubscription configEqual current desired s =
     (case subscriptionChanged configEqual current desired of
        (False, updated) \<Rightarrow> (Return (False, None), s)
      | (True, None) \<Rightarrow> (Panic, s)
      | (True, Some updated) \<Rightarrow>
          (case clientUpdate updated s of
             (Some err, s') \<Rightarrow>
               (Return (False,
                  Some (ErrorfW (''failed to update subscription '' @ Namespace updated @ ''/''
                                 @ Name updated @ '': '') err)), s')
           | (None, s') \<Rightarrow> (Return (True, None), s')))"

definition ensureServiceMeshOperatorSubscription ::
  "(subscriptionConfig \<Rightarrow> subscriptionConfig \<Rightarrow> bool)
     \<Rightarrow> namespacedName \<Rightarrow> subscription store
     \<Rightarrow> (bool \<times> subscription option \<times> error option) outcome \<times> subscription store" where
  "ensureServiceMeshOperatorSubscription configEqual name s =
     (case currentSubscription name s of
        ((have, current, Some err), s1) \<Rightarrow> (Return (False, None, Some err), s1)
      | ((have, current, None), s1) \<Rightarrow>
          (case desiredSubscription name of
             (desired, Some err) \<Rightarrow> (Return (have, current, Some err), s1)
           | (desired, None) \<Rightarrow>
               if \<not> have then
                 (case createSubscription desired s1 of
                    (Some err, s2) \<Rightarrow> (Return (False, None, Some err), s2)
                  | (None, s2) \<Rightarrow>
                      (case currentSubscription name s2 of (r, s3) \<Rightarrow> (Return r, s3)))
               else
                 (case current of
                    None \<Rightarrow> (Panic, s1)
                  | Some cur \<Rightarrow>
                      (case updateSubscription configEqual cur desired s1 of
                         (Panic, s2) \<Rightarrow> (Panic, s2)
                       | (Return (updated, Some err), s2) \<Rightarrow> (Return (have, current, Some err), s2)
                       | (Return (updated, None), s2) \<Rightarrow>
                           if updated
                           then (case currentSubscription name s2 of
                                   (r, s3) \<Rightarrow> (Return r, s3))
                           else (Return (True, current, None), s2)))))"

section \<open>pkg/operator/operator.go\<close>

subsection \<open>The API objects the operator reads and writes\<close>

text \<open>
  configv1.Ingress, configv1.Infrastructure, corev1.Node and operatorv1.IngressController,
  each with the fields that operator.go touches. The enumerations of the OpenShift API are
  Go string types, so a field can hold any string; the constants are the API's.
\<close>

record awsIngressSpec =
  AWSIngressType :: string

record ingressPlatformSpec =
  IngressPlatformType :: string
  AWS :: "awsIngressSpec option"

record loadBalancer =
  Platform :: ingressPlatformSpec

record ingressSpec =
  OperatorLogLevel :: string
  LoadBalancer :: loadBalancer

record ingressStatus =
  DefaultPlacement :: string

record ingress = objectMeta +
  IngressSpec :: ingressSpec
  IngressStatus :: ingressStatus

record platformStatus =
  PlatformType :: string

record infrastructureStatus =
  ControlPlaneTopology :: string
  InfrastructureTopology :: string
  PlatformStatus :: "platformStatus option"

record infrastructure = objectMeta +
  InfrastructureStatus :: infrastructureStatus

record node = objectMeta +
  Unschedulable :: bool

record awsLoadBalancerParameters =
  AWSLoadBalancerType :: string

record providerLoadBalancerParameters =
  ProviderType :: string
  ProviderAWS :: "awsLoadBalancerParameters option"

record loadBalancerStrategy =
  Scope :: string
  ProviderParameters :: "providerLoadBalancerParameters option"

record endpointPublishingStrategy =
  StrategyType :: string
  LoadBalancerStrategy :: "loadBalancerStrategy option"

record ingressController = objectMeta +
  Replicas :: "32 word option"
  EndpointPublishingStrategy :: "endpointPublishingStrategy option"

definition SingleReplicaTopologyMode :: string where
  "SingleReplicaTopologyMode = ''SingleReplica''"

definition NonePlatformType :: string where
  "NonePlatformType = ''None''"

definition AWSPlatformType :: string where
  "AWSPlatformType = ''AWS''"

definition NLB :: string where
  "NLB = ''NLB''"

definition DefaultPlacementWorkers :: string where
  "DefaultPlacementWorkers = ''Workers''"

definition DefaultPlacementControlPlane :: string where
  "DefaultPlacementControlPlane = ''ControlPlane''"

definition IngressOperatorLogLevelDebug :: string where
  "IngressOperatorLogLevelDebug = ''Debug''"

definition IngressOperatorLogLevelTrace :: string where
  "IngressOperatorLogLevelTrace = ''Trace''"

definition IngressOperatorLogLevelTraceAll :: string where
  "IngressOperatorLogLevelTraceAll = ''TraceAll''"

definition LoadBalancerServiceStrategyType :: string where
  "LoadBalancerServiceStrategyType = ''LoadBalancerService''"

definition AWSLoadBalancerProvider :: string where
  "AWSLoadBalancerProvider = ''AWS''"

definition AWSNetworkLoadBalancer :: string where
  "AWSNetworkLoadBalancer = ''NLB''"

text \<open>zapcore.Level is an int8; zap.InfoLevel is 0 and zap.DebugLevel is -1.\<close>

type_synonym Level = "8 word"

definition InfoLevel :: Level where
  "InfoLevel = 0"

definition DebugLevel :: Level where
  "DebugLevel = - 1"

subsection \<open>The operator and what it can reach\<close>

text \<open>
  The Operator struct with the stores behind its client, one per kind, and the
  process-wide level logf.CurrentLogLevel; \<open>setLevelCalls\<close> lists the arguments of
  the calls of SetLevel.
\<close>

record operator =
  namespace :: string
  ingressControllers :: "ingressController store"
  ingressConfigs :: "ingress store"
  infrastructures :: "infrastructure store"
  nodes :: "node store"
  CurrentLogLevel :: Level
  setLevelCalls :: "Level list"

subsection \<open>ensureLogLevel\<close>

text \<open>The switch of ensureLogLevel on Spec.OperatorLogLevel.\<close>

definition desiredLogLevel :: "string \<Rightarrow> Level" where
  "desiredLogLevel l =
     (if l = IngressOperatorLogLevelDebug then DebugLevel
      else if l = IngressOperatorLogLevelTrace then - 2
      else if l = IngressOperatorLogLevelTraceAll then - 3
      else InfoLevel)"

definition ensureLogLevel :: "operator \<Rightarrow> operator" where
  "ensureLogLevel o1 =
     (case clientGet ([], ''cluster'') (ingressConfigs o1) of
        (Inl err, s') \<Rightarrow> o1\<lparr>ingressConfigs := s'\<rparr>
      | (Inr ingressConfig, s') \<Rightarrow>
          (let desired = desiredLogLevel (OperatorLogLevel (IngressSpec ingressConfig)) in
           if CurrentLogLevel o1 \<noteq> desired
           then o1\<lparr>ingressConfigs := s', CurrentLogLevel := desired,
                   setLevelCalls := setLevelCalls o1 @ [desired]\<rparr>
           else o1\<lparr>ingressConfigs := s'\<rparr>))"

subsection \<open>handleSingleNode4Dot11Upgrade\<close>

text \<open>
  Modelled from the spec: retry.RetryOnConflict of client-go (section 4.3: a bounded
  number of attempts, a conflict is retried, any other error or success ends the loop,
  and exhausting the attempts surfaces the last conflict). retry.DefaultBackoff allows
  four attempts.
\<close>

fun RetryOnConflict ::
  "nat \<Rightarrow> ('s \<Rightarrow> error option \<times> 's) \<Rightarrow> 's \<Rightarrow> error option \<times> 's" where
  "RetryOnConflict 0 fn s = (None, s)"
| "RetryOnConflict (Suc n) fn s =
     (case fn s of
        (None, s') \<Rightarrow> (None, s')
      | (Some err, s') \<Rightarrow>
          if IsConflict err
          then (if n = 0 then (Some err, s') else RetryOnConflict n fn s')
          else (Some err, s'))"

definition DefaultBackoffSteps :: nat where
  "DefaultBackoffSteps = 4"

text \<open>
  The condition at lines 368-373: Go evaluates the conjunction left to right and stops at
  the first false conjunct, so the field of PlatformStatus is read, and a nil
  PlatformStatus dereferenced, only after the first three conjuncts held.
\<close>

definition selectDefaultPlacement :: "node list \<Rightarrow> infrastructure \<Rightarrow> string outcome" where
  "selectDefaultPlacement items infraConfig =
     (if length items = 1 \<and>
         ControlPlaneTopology (InfrastructureStatus infraConfig) = SingleReplicaTopologyMode \<and>
         InfrastructureTopology (InfrastructureStatus infraConfig) = SingleReplicaTopologyMode
      then (case PlatformStatus (InfrastructureStatus infraConfig) of
              None \<Rightarrow> Panic
            | Some ps \<Rightarrow>
                if PlatformType ps = NonePlatformType
                then Return DefaultPlacementControlPlane
                else Return DefaultPlacementWorkers)
      else Return DefaultPlacementWorkers)"

text \<open>
  The closure given to RetryOnConflict: fetch the ingress config again, set the status
  field on it and send the difference to the fetched copy as a status patch.
\<close>

definition patchDefaultPlacement ::
  "namespacedName \<Rightarrow> string \<Rightarrow> ingress store \<Rightarrow> error option \<times> ingress store" where
  "patchDefaultPlacement ingressConfigName desired s =
     (case clientGet ingressConfigName s of
        (Inl err, s1) \<Rightarrow> (Some err, s1)
      | (Inr ingressConfig, s1) \<Rightarrow>
          clientStatusPatch
            (ingressConfig\<lparr>IngressStatus := (IngressStatus ingressConfig)\<lparr>DefaultPlacement := desired\<rparr>\<rparr>)
            (\<lambda>stored.
               if DefaultPlacement (IngressStatus ingressConfig) = desired then stored
               else stored\<lparr>IngressStatus := (IngressStatus stored)\<lparr>DefaultPlacement := desired\<rparr>\<rparr>)
            s1)"

text \<open>
  handleSingleNode4Dot11Upgrade. The names of the two cluster configs come from
  functions declared outside these sources and are parameters.
\<close>

definition handleSingleNode4Dot11Upgrade ::
  "namespacedName \<Rightarrow> namespacedName \<Rightarrow> operator \<Rightarrow> error option outcome \<times> operator" where
  "handleSingleNode4Dot11Upgrade infraConfigName ingressConfigName o1 =
     (case clientGet infraConfigName (infrastructures o1) of
        (Inl err, sf) \<Rightarrow>
          (Return (Some (ErrorfW ''failed fetching infrastructure config: '' err)),
           o1\<lparr>infrastructures := sf\<rparr>)
      | (Inr infraConfig, sf) \<Rightarrow>
          (case clientGet ingressConfigName (ingressConfigs o1) of
             (Inl err, sg) \<Rightarrow>
               (Return (Some (ErrorfW ''failed fetching ingress config: '' err)),
                o1\<lparr>infrastructures := sf, ingressConfigs := sg\<rparr>)
           | (Inr ingressConfig, sg) \<Rightarrow>
               if DefaultPlacement (IngressStatus ingressConfig) \<noteq> []
               then (Return None, o1\<lparr>infrastructures := sf, ingressConfigs := sg\<rparr>)
               else
                 (case clientList (nodes o1) of
                    (Inl err, sn) \<Rightarrow>
                      (Return (Some (ErrorfW ''failed fetching cluster nodes: '' err)),
                       o1\<lparr>infrastructures := sf, ingressConfigs := sg, nodes := sn\<rparr>)
                  | (Inr items, sn) \<Rightarrow>
                      (case selectDefaultPlacement items infraConfig of
                         Panic \<Rightarrow>
                           (Panic, o1\<lparr>infrastructures := sf, ingressConfigs := sg, nodes := sn\<rparr>)
                       | Return desiredDefaultPlacement \<Rightarrow>
                           (case RetryOnConflict DefaultBackoffSteps
                                   (patchDefaultPlacement ingressConfigName desiredDefaultPlacement)
                                   sg of
                              (Some err, sp) \<Rightarrow>
                                (Return (Some (ErrorfW
                                   (''unable to update ingress config \"'' @ snd ingressConfigName
                                    @ ''\": '') err)),
                                 o1\<lparr>infrastructures := sf, ingressConfigs := sp, nodes := sn\<rparr>)
                            | (None, sp) \<Rightarrow>
                                (Return None,
                                 o1\<lparr>infrastructures := sf, ingressConfigs := sp, nodes := sn\<rparr>))))))"

subsection \<open>ensureDefaultIngressController\<close>

text \<open>
  ensureDefaultIngressController. ingress.DetermineReplicas and
  manifests.DefaultIngressControllerName are declared outside these sources and are the
  parameters \<open>DetermineReplicas\<close> and \<open>defaultName\<close>.
\<close>

definition defaultIngressController ::
  "(ingress \<Rightarrow> infrastructure \<Rightarrow> 32 word) \<Rightarrow> namespacedName
     \<Rightarrow> infrastructure \<Rightarrow> ingress \<Rightarrow> ingressController" where
  "defaultIngressController DetermineReplicas name infraConfig ingressConfig =
     \<lparr>Name = snd name, Namespace = fst name,
      Labels = None, Annotations = None, ResourceVersion = 0,
      Replicas = Some (DetermineReplicas ingressConfig infraConfig),
      EndpointPublishingStrategy =
        (if IngressPlatformType (Platform (LoadBalancer (IngressSpec ingressConfig))) = AWSPlatformType
         then (case AWS (Platform (LoadBalancer (IngressSpec ingressConfig))) of
                 None \<Rightarrow> None
               | Some aws \<Rightarrow>
                   if AWSIngressType aws = NLB
                   then Some \<lparr>StrategyType = LoadBalancerServiceStrategyType,
                              LoadBalancerStrategy =
                                Some \<lparr>Scope = ''External'',
                                      ProviderParameters =
                                        Some \<lparr>ProviderType = AWSLoadBalancerProvider,
                                              ProviderAWS =
                                                Some \<lparr>AWSLoadBalancerType = AWSNetworkLoadBalancer\<rparr>\<rparr>\<rparr>\<rparr>
                   else None)
         else None)\<rparr>"

definition ensureDefaultIngressController ::
  "(ingress \<Rightarrow> infrastructure \<Rightarrow> 32 word) \<Rightarrow> string
     \<Rightarrow> infrastructure \<Rightarrow> ingress \<Rightarrow> operator \<Rightarrow> error option \<times> operator" where
  "ensureDefaultIngressController DetermineReplicas defaultName infraConfig ingressConfig o1 =
     (let name = (namespace o1, defaultName) in
      case clientGet name (ingressControllers o1) of
        (Inr ic, s1) \<Rightarrow> (None, o1\<lparr>ingressControllers := s1\<rparr>)
      | (Inl err, s1) \<Rightarrow>
          if \<not> IsNotFound err then (Some err, o1\<lparr>ingressControllers := s1\<rparr>)
          else
            (case clientCreate
                    (defaultIngressController DetermineReplicas name infraConfig ingressConfig) s1 of
               (Some err, s2) \<Rightarrow> (Some err, o1\<lparr>ingressControllers := s2\<rparr>)
             | (None, s2) \<Rightarrow> (None, o1\<lparr>ingressControllers := s2\<rparr>)))"

section \<open>Vocabulary of the properties\<close>

text \<open>The calls that an operation started in \<open>s\<close> and ended in \<open>s'\<close> has issued.\<close>

definition issued :: "'o store \<Rightarrow> 'o store \<Rightarrow> ('o call \<times> error option) list" where
  "issued s s' = drop (length (calls s)) (calls s')"

text \<open>
  The two answers that the code absorbs by design: NotFound to a get (the object is
  absent) and NotFound to a delete (the object is already gone).
\<close>

definition resolvedLocally :: "'o call \<times> error option \<Rightarrow> bool" where
  "resolvedLocally x =
     (case x of
        (GetCall k, Some err) \<Rightarrow> IsNotFound err
      | (DeleteCall obj, Some err) \<Rightarrow> IsNotFound err
      | _ \<Rightarrow> False)"

definition alreadyExistsOnUpdate :: "'o call \<times> error option \<Rightarrow> bool" where
  "alreadyExistsOnUpdate x =
     (case x of (UpdateCall obj, Some err) \<Rightarrow> IsAlreadyExists err | _ \<Rightarrow> False)"

definition succeeded :: "'o call \<times> error option \<Rightarrow> bool" where
  "succeeded x = (snd x = None)"

text \<open>The error that each reconciler hands to its caller for an error of a store call.\<close>

definition configMapError :: "configMap call \<Rightarrow> error \<Rightarrow> error" where
  "configMapError c err =
     (case c of
        CreateCall obj \<Rightarrow> ErrorfV ''failed to create configmap: '' err
      | UpdateCall obj \<Rightarrow> ErrorfV ''failed to update configmap: '' err
      | DeleteCall obj \<Rightarrow> ErrorfV ''failed to delete configmap: '' err
      | _ \<Rightarrow> err)"

definition subscriptionError :: "subscription call \<Rightarrow> error \<Rightarrow> error" where
  "subscriptionError c err =
     (case c of
        GetCall k \<Rightarrow> ErrorfW (''failed to get subscription '' @ nnString k @ '': '') err
      | CreateCall obj \<Rightarrow>
          ErrorfW (''failed to create subscription '' @ Namespace obj @ ''/'' @ Name obj @ '': '') err
      | UpdateCall obj \<Rightarrow>
          ErrorfW (''failed to update subscription '' @ Namespace obj @ ''/'' @ Name obj @ '': '') err
      | _ \<Rightarrow> err)"

definition errorOf :: "(bool \<times> 'o option \<times> error option) outcome \<Rightarrow> error option" where
  "errorOf out = (case out of Panic \<Rightarrow> None | Return (have, current, err) \<Rightarrow> err)"

text \<open>Every object of the store is filed under its own namespace and name.\<close>

definition wellKeyed :: "'a objectMeta_scheme store \<Rightarrow> bool" where
  "wellKeyed s = list_all (\<lambda>(k, obj). objKey obj = k) (objs s)"

text \<open>The value of one label, whether the label map is nil or not.\<close>

definition labelOf :: "'a objectMeta_scheme \<Rightarrow> string \<Rightarrow> string option" where
  "labelOf obj k = (case Labels obj of None \<Rightarrow> None | Some m \<Rightarrow> m k)"

text \<open>
  The conditions of the topology gate in the words of the specification: the first three
  (one node, both topologies single-replica) and all four (the platform type is None too).
\<close>

definition singleNodeSingleReplica :: "node list \<Rightarrow> infrastructure \<Rightarrow> bool" where
  "singleNodeSingleReplica items infraConfig =
     (length items = 1 \<and>
      ControlPlaneTopology (InfrastructureStatus infraConfig) = SingleReplicaTopologyMode \<and>
      InfrastructureTopology (InfrastructureStatus infraConfig) = SingleReplicaTopologyMode)"

definition singleNodeNonePlatform :: "node list \<Rightarrow> infrastructure \<Rightarrow> bool" where
  "singleNodeNonePlatform items infraConfig =
     (singleNodeSingleReplica items infraConfig \<and>
      (case PlatformStatus (InfrastructureStatus infraConfig) of
         None \<Rightarrow> False
       | Some ps \<Rightarrow> PlatformType ps = NonePlatformType))"

text \<open>A call on the ingress configs that is a get, or a status patch with the given placement.\<close>

definition setsPlacement :: "string \<Rightarrow> ingress call \<times> error option \<Rightarrow> bool" where
  "setsPlacement p x =
     (case fst x of
        GetCall k \<Rightarrow> True
      | StatusPatchCall obj \<Rightarrow> DefaultPlacement (IngressStatus obj) = p
      | _ \<Rightarrow> False)"

section \<open>Concrete inputs\<close>

definition faultAt :: "nat \<Rightarrow> error \<Rightarrow> nat \<Rightarrow> error option" where
  "faultAt i err = (\<lambda>j. if j = i then Some err else None)"

definition noFaults :: "nat \<Rightarrow> error option" where
  "noFaults = (\<lambda>j. None)"

definition errTimeout :: error where
  "errTimeout = StatusError (StatusReasonOther ''Timeout'') ''request timed out''"

definition exName :: namespacedName where
  "exName = (''ns'', ''obj'')"

definition exConfigMap :: configMap where
  "exConfigMap =
     \<lparr>Name = ''obj'', Namespace = ''ns'', Labels = None, Annotations = None,
      ResourceVersion = 7, Data = None\<rparr>"

definition exSubscription :: subscription where
  "exSubscription =
     \<lparr>Name = ''obj'', Namespace = ''ns'', Labels = None, Annotations = None,
      ResourceVersion = 7, Spec = None,
      Status = \<lparr>CurrentCSV = ''servicemeshoperator.v2.4.0'', InstalledCSV = [], State = []\<rparr>\<rparr>"

text \<open>An empty store whose second call is answered AlreadyExists: a lost race on create.\<close>

definition raceStore :: "'o store" where
  "raceStore = \<lparr>objs = [], faults = faultAt 1 errAlreadyExists, calls = []\<rparr>"

definition emptyStore :: "'o store" where
  "emptyStore = \<lparr>objs = [], faults = noFaults, calls = []\<rparr>"

definition configMapStore :: "(nat \<Rightarrow> error option) \<Rightarrow> configMap store" where
  "configMapStore f = \<lparr>objs = [(exName, exConfigMap)], faults = f, calls = []\<rparr>"

definition subscriptionStore :: "(nat \<Rightarrow> error option) \<Rightarrow> subscription store" where
  "subscriptionStore f = \<lparr>objs = [(exName, exSubscription)], faults = f, calls = []\<rparr>"

definition exIngress :: "string \<Rightarrow> string \<Rightarrow> ingress" where
  "exIngress level placement =
     \<lparr>Name = ''cluster'', Namespace = [], Labels = None, Annotations = None, ResourceVersion = 3,
      IngressSpec = \<lparr>OperatorLogLevel = level,
                     LoadBalancer = \<lparr>Platform = \<lparr>IngressPlatformType = [], AWS = None\<rparr>\<rparr>\<rparr>,
      IngressStatus = \<lparr>DefaultPlacement = placement\<rparr>\<rparr>"

definition exInfrastructure :: "platformStatus option \<Rightarrow> infrastructure" where
  "exInfrastructure ps =
     \<lparr>Name = ''cluster'', Namespace = [], Labels = None, Annotations = None, ResourceVersion = 5,
      InfrastructureStatus = \<lparr>ControlPlaneTopology = ''SingleReplica'',
                               InfrastructureTopology = ''SingleReplica'',
                               PlatformStatus = ps\<rparr>\<rparr>"

definition exNode :: node where
  "exNode =
     \<lparr>Name = ''node-0'', Namespace = [], Labels = None, Annotations = None, ResourceVersion = 9,
      Unschedulable = False\<rparr>"

definition exConfigEqual :: "subscriptionConfig \<Rightarrow> subscriptionConfig \<Rightarrow> bool" where
  "exConfigEqual c d = True"

definition exDetermineReplicas :: "ingress \<Rightarrow> infrastructure \<Rightarrow> 32 word" where
  "exDetermineReplicas ingressConfig infraConfig = 2"

definition clusterName :: namespacedName where
  "clusterName = ([], ''cluster'')"

text \<open>
  A single-node cluster: one node, both topologies SingleReplica, the given platform
  status, and an ingress config with the given log level and default placement.
\<close>

definition exOperator :: "platformStatus option \<Rightarrow> string \<Rightarrow> string \<Rightarrow> operator" where
  "exOperator ps level placement =
     \<lparr>namespace = ''openshift-ingress-operator'',
      ingressControllers = emptyStore,
      ingressConfigs = \<lparr>objs = [(clusterName, exIngress level placement)], faults = noFaults, calls = []\<rparr>,
      infrastructures = \<lparr>objs = [(clusterName, exInfrastructure ps)], faults = noFaults, calls = []\<rparr>,
      nodes = \<lparr>objs = [(([], ''node-0''), exNode)], faults = noFaults, calls = []\<rparr>,
      CurrentLogLevel = InfoLevel,
      setLevelCalls = []\<rparr>"

section \<open>Facts about the store\<close>

lemmas store_defs =
  clientGet_def clientCreate_def clientUpdate_def clientDelete_def clientList_def
  clientStatusPatch_def called_def fault_def objKey_def

lemmas error_defs =
  errNotFound_def errAlreadyExists_def errConflict_def errTimeout_def
  IsNotFound_def IsAlreadyExists_def IsConflict_def ErrorfV_def ErrorfW_def

lemmas example_defs =
  faultAt_def noFaults_def exName_def exConfigMap_def exSubscription_def raceStore_def
  emptyStore_def configMapStore_def subscriptionStore_def exIngress_def exInfrastructure_def
  exNode_def clusterName_def exOperator_def

lemma clientGet_log:
  "clientGet key s = (r, s') \<Longrightarrow>
     objs s' = objs s \<and> faults s' = faults s \<and>
     calls s' = calls s @ [(GetCall key, case r of Inl e \<Rightarrow> Some e | Inr obj \<Rightarrow> None)]"
  by (auto simp: clientGet_def called_def split: option.splits)

lemma clientList_log:
  "clientList s = (r, s') \<Longrightarrow>
     objs s' = objs s \<and> faults s' = faults s \<and>
     calls s' = calls s @ [(ListCall, case r of Inl e \<Rightarrow> Some e | Inr items \<Rightarrow> None)]"
  by (auto simp: clientList_def called_def split: option.splits)

lemma clientCreate_log:
  "clientCreate obj s = (r, s') \<Longrightarrow>
     faults s' = faults s \<and> calls s' = calls s @ [(CreateCall obj, r)]"
  by (auto simp: clientCreate_def called_def split: option.splits)

lemma clientUpdate_log:
  "clientUpdate obj s = (r, s') \<Longrightarrow>
     faults s' = faults s \<and> calls s' = calls s @ [(UpdateCall obj, r)]"
  by (auto simp: clientUpdate_def called_def split: option.splits if_splits)

lemma clientDelete_log:
  "clientDelete obj s = (r, s') \<Longrightarrow>
     faults s' = faults s \<and> calls s' = calls s @ [(DeleteCall obj, r)]"
  by (auto simp: clientDelete_def called_def split: option.splits)

lemma issued_append [simp]: "calls s' = calls s @ new \<Longrightarrow> issued s s' = new"
  by (simp add: issued_def)

section \<open>trustedca\_configmap.go\<close>

lemma currentTrustedCAConfigMap_log:
  "currentTrustedCAConfigMap name s = ((have, cur, err), s') \<Longrightarrow>
     \<exists>a. calls s' = calls s @ [(GetCall name, a)] \<and>
       (case a of None \<Rightarrow> err = None
        | Some e \<Rightarrow> if IsNotFound e then err = None else err = Some e)"
  by (auto simp: currentTrustedCAConfigMap_def split: prod.splits sum.splits if_splits
      dest!: clientGet_log)

lemma updateTrustedCAConfigMap_log:
  "updateTrustedCAConfigMap cur d s = ((u, err), s') \<Longrightarrow>
     (s' = s \<and> err = None \<and> \<not> u) \<or>
     (\<exists>a. calls s' = calls s @ [(UpdateCall (updatedConfigMap cur), a)] \<and>
       (case a of None \<Rightarrow> err = None
        | Some e \<Rightarrow> if IsAlreadyExists e then err = None \<and> \<not> u else err = Some e))"
  by (auto simp: updateTrustedCAConfigMap_def split: prod.splits option.splits if_splits
      dest!: clientUpdate_log)

text \<open>
  C6. When no configmap is wanted and one exists, ensureTrustedCAConfigMap deletes the
  current object; a NotFound answer to the delete gives the same successful result
  (no configmap, no error) as a delete that succeeded.
\<close>

theorem delete_not_found_is_success:
  assumes "fst desiredResult = False" and "snd (snd desiredResult) = None"
    and "clientGet name s = (Inr cur, s1)"
    and "clientDelete cur s1 = (answer, s2)"
    and "answer = None \<or> (\<exists>err. answer = Some err \<and> IsNotFound err)"
  shows "ensureTrustedCAConfigMapWith desiredResult name s = (Return (False, None, None), s2) \<and>
         issued s s2 = [(GetCall name, None), (DeleteCall cur, answer)]"
proof -
  obtain d where d: "desiredResult = (False, d, None)"
    using assms(1,2) by (cases desiredResult) auto
  have cur: "currentTrustedCAConfigMap name s = ((True, Some cur, None), s1)"
    using assms(3) by (simp add: currentTrustedCAConfigMap_def)
  have res: "ensureTrustedCAConfigMapWith desiredResult name s = (Return (False, None, None), s2)"
    using assms(4,5) by (auto simp: ensureTrustedCAConfigMapWith_def d cur)
  have "calls s1 = calls s @ [(GetCall name, None)]"
    using clientGet_log [OF assms(3)] by simp
  moreover have "calls s2 = calls s1 @ [(DeleteCall cur, answer)]"
    using clientDelete_log [OF assms(4)] by simp
  ultimately show ?thesis using res by simp
qed

theorem delete_not_found_is_success_witness:
  "ensureTrustedCAConfigMapWith (False, exConfigMap, None) exName (configMapStore (faultAt 1 errNotFound))
     = (Return (False, None, None),
        (configMapStore (faultAt 1 errNotFound))
          \<lparr>calls := [(GetCall exName, None), (DeleteCall exConfigMap, Some errNotFound)]\<rparr>)"
proof -
  let ?s = "configMapStore (faultAt 1 errNotFound)"
  let ?s1 = "?s\<lparr>calls := [(GetCall exName, None)]\<rparr>"
  let ?s2 = "?s\<lparr>calls := [(GetCall exName, None), (DeleteCall exConfigMap, Some errNotFound)]\<rparr>"
  have g: "clientGet exName ?s = (Inr exConfigMap, ?s1)"
    by (simp add: store_defs example_defs)
  have d: "clientDelete exConfigMap ?s1 = (Some errNotFound, ?s2)"
    by (simp add: store_defs example_defs)
  have n: "Some errNotFound = None \<or> (\<exists>err. Some errNotFound = Some err \<and> IsNotFound err)"
    by (simp add: error_defs)
  show ?thesis
    using delete_not_found_is_success [OF _ _ g d n, of "(False, exConfigMap, None)"] by simp
qed

text \<open>
  C9. desiredTrustedCAConfigMap always wants the configmap and never fails, so
  ensureTrustedCAConfigMap issues no delete, whatever the store holds and answers.
\<close>

theorem trusted_ca_configmap_never_deleted:
  "fst (desiredTrustedCAConfigMap name) = True \<and>
   snd (snd (desiredTrustedCAConfigMap name)) = None \<and>
   filter (\<lambda>x. isDelete (fst x)) (issued s (snd (ensureTrustedCAConfigMap name s))) = []"
proof -
  obtain out s' where r: "ensureTrustedCAConfigMap name s = (out, s')"
    by (cases "ensureTrustedCAConfigMap name s")
  then have "filter (\<lambda>x. isDelete (fst x)) (issued s s') = []"
    by (auto simp: ensureTrustedCAConfigMap_def ensureTrustedCAConfigMapWith_def
        desiredTrustedCAConfigMap_def isDelete_def
        split: option.splits if_splits prod.splits
        dest!: currentTrustedCAConfigMap_log updateTrustedCAConfigMap_log clientCreate_log)
  then show ?thesis
    using r by (simp add: desiredTrustedCAConfigMap_def)
qed

section \<open>subscription.go\<close>

lemma currentSubscription_log:
  "currentSubscription name s = ((have, cur, err), s') \<Longrightarrow>
     \<exists>a. calls s' = calls s @ [(GetCall name, a)] \<and>
       (case a of None \<Rightarrow> err = None
        | Some e \<Rightarrow> if IsNotFound e then err = None
                    else err = Some (subscriptionError (GetCall name) e))"
  by (auto simp: currentSubscription_def subscriptionError_def
      split: prod.splits sum.splits if_splits dest!: clientGet_log)

lemma createSubscription_log:
  "createSubscription sub s = (err, s') \<Longrightarrow>
     \<exists>a. calls s' = calls s @ [(CreateCall sub, a)] \<and>
       (case a of None \<Rightarrow> err = None
        | Some e \<Rightarrow> err = Some (subscriptionError (CreateCall sub) e))"
  by (auto simp: createSubscription_def subscriptionError_def
      split: prod.splits option.splits dest!: clientCreate_log)

lemma updateSubscription_log:
  "updateSubscription ce cur d s = (Return (u, err), s') \<Longrightarrow>
     (s' = s \<and> err = None \<and> \<not> u) \<or>
     (\<exists>a. calls s' = calls s @ [(UpdateCall (cur\<lparr>Spec := Spec d\<rparr>), a)] \<and>
       (case a of None \<Rightarrow> err = None \<and> u
        | Some e \<Rightarrow> err = Some (subscriptionError (UpdateCall (cur\<lparr>Spec := Spec d\<rparr>)) e)))"
  by (auto simp: updateSubscription_def subscriptionChanged_def subscriptionError_def
      split: prod.splits option.splits if_splits bool.splits dest!: clientUpdate_log)

lemma updateSubscription_no_panic: "updateSubscription ce cur d s = (Panic, s') \<Longrightarrow> False"
  by (auto simp: updateSubscription_def subscriptionChanged_def
      split: prod.splits option.splits if_splits bool.splits)

section \<open>Errors of the store end the invocation\<close>

lemma configmap_errors_end_invocation:
  assumes "ensureTrustedCAConfigMapWith d name s = (out, s')"
  shows "list_all (\<lambda>x. succeeded x \<or> resolvedLocally x \<or> alreadyExistsOnUpdate x)
           (butlast (issued s s')) \<and>
         (\<forall>c err. issued s s' \<noteq> [] \<and> last (issued s s') = (c, Some err) \<and>
            \<not> resolvedLocally (c, Some err) \<and> \<not> alreadyExistsOnUpdate (c, Some err)
            \<longrightarrow> errorOf out = Some (configMapError c err))"
  using assms
  by (cases d)
     (auto simp: ensureTrustedCAConfigMapWith_def succeeded_def resolvedLocally_def
        alreadyExistsOnUpdate_def configMapError_def errorOf_def
        split: option.splits if_splits prod.splits
        dest!: currentTrustedCAConfigMap_log updateTrustedCAConfigMap_log clientCreate_log
          clientDelete_log)

lemma subscription_errors_end_invocation:
  assumes "ensureServiceMeshOperatorSubscription ce name s = (out, s')"
  shows "list_all (\<lambda>x. succeeded x \<or> resolvedLocally x) (butlast (issued s s')) \<and>
         (\<forall>c err. issued s s' \<noteq> [] \<and> last (issued s s') = (c, Some err) \<and>
            \<not> resolvedLocally (c, Some err)
            \<longrightarrow> errorOf out = Some (subscriptionError c err))"
  using assms
  by (auto simp: ensureServiceMeshOperatorSubscription_def desiredSubscription_def
        succeeded_def resolvedLocally_def errorOf_def
        split: option.splits if_splits prod.splits outcome.splits
        dest!: currentSubscription_log createSubscription_log updateSubscription_log
          updateSubscription_no_panic)

lemma ingresscontroller_errors_end_invocation:
  assumes "ensureDefaultIngressController DR defaultName infraConfig ingressConfig o1 = (res, o2)"
  shows "list_all (\<lambda>x. succeeded x \<or> resolvedLocally x)
           (butlast (issued (ingressControllers o1) (ingressControllers o2))) \<and>
         (\<forall>c err. issued (ingressControllers o1) (ingressControllers o2) \<noteq> [] \<and>
            last (issued (ingressControllers o1) (ingressControllers o2)) = (c, Some err) \<and>
            \<not> resolvedLocally (c, Some err)
            \<longrightarrow> res = Some err)"
  using assms
  by (auto simp: ensureDefaultIngressController_def Let_def succeeded_def resolvedLocally_def
        split: option.splits if_splits prod.splits sum.splits
        dest!: clientGet_log clientCreate_log)


section \<open>Creating what is missing\<close>

text \<open>
  C1, as the claim states it, fails: on an empty store whose create is answered
  AlreadyExists, each of the three operations returns an error and issues no call after
  the create.
\<close>

theorem create_already_exists_counterexample:
  "errorOf (fst (ensureTrustedCAConfigMap exName raceStore))
     = Some (ErrorString ''failed to create configmap: already exists'') \<and>
   issued raceStore (snd (ensureTrustedCAConfigMap exName raceStore))
     = [(GetCall exName, Some errNotFound),
        (CreateCall (fst (snd (desiredTrustedCAConfigMap exName))), Some errAlreadyExists)] \<and>
   errorOf (fst (ensureServiceMeshOperatorSubscription exConfigEqual exName raceStore))
     = Some (WrapError ''failed to create subscription ns/obj: already exists'' errAlreadyExists) \<and>
   issued raceStore (snd (ensureServiceMeshOperatorSubscription exConfigEqual exName raceStore))
     = [(GetCall exName, Some errNotFound),
        (CreateCall (fst (desiredSubscription exName)), Some errAlreadyExists)] \<and>
   fst (ensureDefaultIngressController exDetermineReplicas ''default''
          (exInfrastructure None) (exIngress [] [])
          ((exOperator None [] [])\<lparr>ingressControllers := raceStore\<rparr>))
     = Some errAlreadyExists"
proof -
  have cm: "ensureTrustedCAConfigMap exName raceStore =
      (Return (False, None, Some (ErrorString ''failed to create configmap: already exists'')),
       raceStore\<lparr>calls := [(GetCall exName, Some errNotFound),
         (CreateCall (fst (snd (desiredTrustedCAConfigMap exName))), Some errAlreadyExists)]\<rparr>)"
    by (simp add: ensureTrustedCAConfigMap_def ensureTrustedCAConfigMapWith_def
        desiredTrustedCAConfigMap_def currentTrustedCAConfigMap_def store_defs error_defs
        example_defs)
  have sub: "ensureServiceMeshOperatorSubscription exConfigEqual exName raceStore =
      (Return (False, None,
         Some (WrapError ''failed to create subscription ns/obj: already exists'' errAlreadyExists)),
       raceStore\<lparr>calls := [(GetCall exName, Some errNotFound),
         (CreateCall (fst (desiredSubscription exName)), Some errAlreadyExists)]\<rparr>)"
    by (simp add: ensureServiceMeshOperatorSubscription_def desiredSubscription_def
        createSubscription_def currentSubscription_def store_defs error_defs example_defs)
  have ic: "fst (ensureDefaultIngressController exDetermineReplicas ''default''
          (exInfrastructure None) (exIngress [] [])
          ((exOperator None [] [])\<lparr>ingressControllers := raceStore\<rparr>))
     = Some errAlreadyExists"
    by (simp add: ensureDefaultIngressController_def Let_def store_defs error_defs example_defs)
  show ?thesis
    unfolding cm sub ic by (simp add: errorOf_def issued_def raceStore_def)
qed

text \<open>
  C1, amended. When the object is wanted and the get answers NotFound, each operation
  issues a create of the desired object; when the create fails, with AlreadyExists as with
  any other error, the operation issues no further call and returns the error:
  ensureTrustedCAConfigMap as a new error with the prefix "failed to create configmap: ",
  ensureServiceMeshOperatorSubscription wrapped by createSubscription, and
  ensureDefaultIngressController as it is.
\<close>

theorem create_failure_is_returned:
  "(IsNotFound e0 \<and> clientGet name s = (Inl e0, s1) \<and>
    clientCreate (fst (snd (desiredTrustedCAConfigMap name))) s1 = (a, s2)
    \<longrightarrow> (\<exists>out s'. ensureTrustedCAConfigMap name s = (out, s') \<and>
          take 2 (issued s s') =
            [(GetCall name, Some e0),
             (CreateCall (fst (snd (desiredTrustedCAConfigMap name))), a)] \<and>
          (\<forall>err. a = Some err \<longrightarrow>
             s' = s2 \<and>
             out = Return (False, None, Some (ErrorfV ''failed to create configmap: '' err))))) \<and>
   (IsNotFound e0 \<and> clientGet name t = (Inl e0, t1) \<and>
    clientCreate (fst (desiredSubscription name)) t1 = (a, t2)
    \<longrightarrow> (\<exists>out t'. ensureServiceMeshOperatorSubscription configEqual name t = (out, t') \<and>
          take 2 (issued t t') =
            [(GetCall name, Some e0), (CreateCall (fst (desiredSubscription name)), a)] \<and>
          (\<forall>err. a = Some err \<longrightarrow>
             t' = t2 \<and>
             out = Return (False, None,
                     Some (ErrorfW (''failed to create subscription '' @ fst name @ ''/''
                                    @ snd name @ '': '') err))))) \<and>
   (IsNotFound e0 \<and> clientGet (namespace o1, defaultName) (ingressControllers o1) = (Inl e0, u1) \<and>
    clientCreate (defaultIngressController DetermineReplicas (namespace o1, defaultName)
                    infraConfig ingressConfig) u1 = (a, u2)
    \<longrightarrow> ensureDefaultIngressController DetermineReplicas defaultName infraConfig ingressConfig o1
          = (a, o1\<lparr>ingressControllers := u2\<rparr>) \<and>
        issued (ingressControllers o1) u2 =
          [(GetCall (namespace o1, defaultName), Some e0),
           (CreateCall (defaultIngressController DetermineReplicas (namespace o1, defaultName)
                          infraConfig ingressConfig), a)])"
proof (intro conjI impI)
  assume h: "IsNotFound e0 \<and> clientGet name s = (Inl e0, s1) \<and>
    clientCreate (fst (snd (desiredTrustedCAConfigMap name))) s1 = (a, s2)"
  let ?d = "fst (snd (desiredTrustedCAConfigMap name))"
  have cur: "currentTrustedCAConfigMap name s = ((False, None, None), s1)"
    using h by (simp add: currentTrustedCAConfigMap_def)
  have l1: "calls s1 = calls s @ [(GetCall name, Some e0)]"
    using h clientGet_log [of name s "Inl e0" s1] by simp
  have l2: "calls s2 = calls s1 @ [(CreateCall ?d, a)]"
    using h clientCreate_log [of ?d s1 a s2] by simp
  show "\<exists>out s'. ensureTrustedCAConfigMap name s = (out, s') \<and>
          take 2 (issued s s') = [(GetCall name, Some e0), (CreateCall ?d, a)] \<and>
          (\<forall>err. a = Some err \<longrightarrow>
             s' = s2 \<and>
             out = Return (False, None, Some (ErrorfV ''failed to create configmap: '' err)))"
  proof (cases a)
    case (Some err)
    then have "ensureTrustedCAConfigMap name s =
        (Return (False, None, Some (ErrorfV ''failed to create configmap: '' err)), s2)"
      using h cur
      by (simp add: ensureTrustedCAConfigMap_def ensureTrustedCAConfigMapWith_def
          desiredTrustedCAConfigMap_def)
    then show ?thesis using Some l1 l2 by simp
  next
    case None
    obtain r s3 where r: "currentTrustedCAConfigMap name s2 = (r, s3)"
      by (cases "currentTrustedCAConfigMap name s2")
    obtain b where l3: "calls s3 = calls s2 @ [(GetCall name, b)]"
      using currentTrustedCAConfigMap_log [of name s2 "fst r" "fst (snd r)" "snd (snd r)" s3] r
      by auto
    have "ensureTrustedCAConfigMap name s = (Return r, s3)"
      using h cur None r
      by (simp add: ensureTrustedCAConfigMap_def ensureTrustedCAConfigMapWith_def
          desiredTrustedCAConfigMap_def)
    then show ?thesis using None l1 l2 l3 by (simp add: issued_def)
  qed
next
  assume h0: "IsNotFound e0 \<and> clientGet name t = (Inl e0, t1) \<and>
    clientCreate (fst (desiredSubscription name)) t1 = (a, t2)"
  obtain d where ds: "desiredSubscription name = (d, None)"
    by (simp add: desiredSubscription_def)
  have nm: "Namespace d = fst name" "Name d = snd name"
    using ds by (auto simp: desiredSubscription_def)
  have h: "IsNotFound e0" "clientGet name t = (Inl e0, t1)" "clientCreate d t1 = (a, t2)"
    using h0 ds by simp_all
  have cur: "currentSubscription name t = ((False, None, None), t1)"
    using h by (simp add: currentSubscription_def)
  have l1: "calls t1 = calls t @ [(GetCall name, Some e0)]"
    using h clientGet_log [of name t "Inl e0" t1] by simp
  have l2: "calls t2 = calls t1 @ [(CreateCall d, a)]"
    using h clientCreate_log [of d t1 a t2] by simp
  have "\<exists>out t'. ensureServiceMeshOperatorSubscription configEqual name t = (out, t') \<and>
          take 2 (issued t t') = [(GetCall name, Some e0), (CreateCall d, a)] \<and>
          (\<forall>err. a = Some err \<longrightarrow>
             t' = t2 \<and>
             out = Return (False, None,
                     Some (ErrorfW (''failed to create subscription '' @ fst name @ ''/''
                                    @ snd name @ '': '') err)))"
  proof (cases a)
    case (Some err)
    then have "createSubscription d t1 =
        (Some (ErrorfW (''failed to create subscription '' @ fst name @ ''/'' @ snd name @ '': '')
                 err), t2)"
      using h nm by (simp add: createSubscription_def)
    then have "ensureServiceMeshOperatorSubscription configEqual name t =
        (Return (False, None,
           Some (ErrorfW (''failed to create subscription '' @ fst name @ ''/'' @ snd name
                          @ '': '') err)), t2)"
      using cur ds by (simp add: ensureServiceMeshOperatorSubscription_def)
    then show ?thesis using Some l1 l2 by simp
  next
    case None
    then have c: "createSubscription d t1 = (None, t2)"
      using h by (simp add: createSubscription_def)
    obtain r t3 where r: "currentSubscription name t2 = (r, t3)"
      by (cases "currentSubscription name t2")
    obtain b where l3: "calls t3 = calls t2 @ [(GetCall name, b)]"
      using currentSubscription_log [of name t2 "fst r" "fst (snd r)" "snd (snd r)" t3] r
      by auto
    have "ensureServiceMeshOperatorSubscription configEqual name t = (Return r, t3)"
      using cur ds c r by (simp add: ensureServiceMeshOperatorSubscription_def)
    then show ?thesis using None l1 l2 l3 by (simp add: issued_def)
  qed
  then show "\<exists>out t'. ensureServiceMeshOperatorSubscription configEqual name t = (out, t') \<and>
          take 2 (issued t t') =
            [(GetCall name, Some e0), (CreateCall (fst (desiredSubscription name)), a)] \<and>
          (\<forall>err. a = Some err \<longrightarrow>
             t' = t2 \<and>
             out = Return (False, None,
                     Some (ErrorfW (''failed to create subscription '' @ fst name @ ''/''
                                    @ snd name @ '': '') err)))"
    using ds by simp
next
  assume h: "IsNotFound e0 \<and>
    clientGet (namespace o1, defaultName) (ingressControllers o1) = (Inl e0, u1) \<and>
    clientCreate (defaultIngressController DetermineReplicas (namespace o1, defaultName)
                    infraConfig ingressConfig) u1 = (a, u2)"
  then show "ensureDefaultIngressController DetermineReplicas defaultName infraConfig
               ingressConfig o1 = (a, o1\<lparr>ingressControllers := u2\<rparr>)"
    by (cases a) (simp_all add: ensureDefaultIngressController_def Let_def)
next
  assume h: "IsNotFound e0 \<and>
    clientGet (namespace o1, defaultName) (ingressControllers o1) = (Inl e0, u1) \<and>
    clientCreate (defaultIngressController DetermineReplicas (namespace o1, defaultName)
                    infraConfig ingressConfig) u1 = (a, u2)"
  let ?d = "defaultIngressController DetermineReplicas (namespace o1, defaultName)
              infraConfig ingressConfig"
  have l1: "calls u1 = calls (ingressControllers o1) @ [(GetCall (namespace o1, defaultName), Some e0)]"
    using h clientGet_log [of "(namespace o1, defaultName)" "ingressControllers o1" "Inl e0" u1]
    by simp
  have l2: "calls u2 = calls u1 @ [(CreateCall ?d, a)]"
    using h clientCreate_log [of ?d u1 a u2] by simp
  show "issued (ingressControllers o1) u2 =
          [(GetCall (namespace o1, defaultName), Some e0), (CreateCall ?d, a)]"
    using l1 l2 by simp
qed


theorem create_failure_is_returned_witness:
  "fst (ensureTrustedCAConfigMap exName (configMapStore (faultAt 0 errNotFound)))
     = Return (False, None, Some (ErrorString ''failed to create configmap: already exists'')) \<and>
   fst (ensureServiceMeshOperatorSubscription exConfigEqual exName
          (subscriptionStore (faultAt 0 errNotFound)))
     = Return (False, None,
         Some (WrapError ''failed to create subscription ns/obj: already exists''
                 errAlreadyExists)) \<and>
   fst (ensureDefaultIngressController exDetermineReplicas ''default''
          (exInfrastructure None) (exIngress [] [])
          ((exOperator None [] [])\<lparr>ingressControllers := raceStore\<rparr>))
     = Some errAlreadyExists"
proof -
  let ?f = "faultAt 0 errNotFound"
  let ?d = "fst (snd (desiredTrustedCAConfigMap exName))"
  let ?s1 = "(configMapStore ?f)\<lparr>calls := [(GetCall exName, Some errNotFound)]\<rparr>"
  let ?s2 = "(configMapStore ?f)\<lparr>calls := [(GetCall exName, Some errNotFound),
                (CreateCall ?d, Some errAlreadyExists)]\<rparr>"
  let ?e = "fst (desiredSubscription exName)"
  let ?t1 = "(subscriptionStore ?f)\<lparr>calls := [(GetCall exName, Some errNotFound)]\<rparr>"
  let ?t2 = "(subscriptionStore ?f)\<lparr>calls := [(GetCall exName, Some errNotFound),
                (CreateCall ?e, Some errAlreadyExists)]\<rparr>"
  let ?o = "(exOperator None [] [])\<lparr>ingressControllers := raceStore\<rparr>"
  let ?n = "(namespace ?o, ''default'')"
  let ?i = "defaultIngressController exDetermineReplicas ?n (exInfrastructure None) (exIngress [] [])"
  let ?u1 = "raceStore\<lparr>calls := [(GetCall ?n, Some errNotFound)]\<rparr>"
  let ?u2 = "raceStore\<lparr>calls := [(GetCall ?n, Some errNotFound),
                (CreateCall ?i, Some errAlreadyExists)]\<rparr>"
  have nf: "IsNotFound errNotFound"
    by (simp add: error_defs)
  have g1: "clientGet exName (configMapStore ?f) = (Inl errNotFound, ?s1)"
    by (simp add: store_defs example_defs)
  have c1: "clientCreate ?d ?s1 = (Some errAlreadyExists, ?s2)"
    by (simp add: store_defs example_defs desiredTrustedCAConfigMap_def)
  have g2: "clientGet exName (subscriptionStore ?f) = (Inl errNotFound, ?t1)"
    by (simp add: store_defs example_defs)
  have c2: "clientCreate ?e ?t1 = (Some errAlreadyExists, ?t2)"
    by (simp add: store_defs example_defs desiredSubscription_def)
  have g3: "clientGet ?n (ingressControllers ?o) = (Inl errNotFound, ?u1)"
    by (simp add: store_defs example_defs error_defs)
  have c3: "clientCreate ?i ?u1 = (Some errAlreadyExists, ?u2)"
    by (simp add: store_defs example_defs error_defs)
  show ?thesis
    using create_failure_is_returned [where ?e0.0 = errNotFound and name = exName
        and a = "Some errAlreadyExists"
        and s = "configMapStore ?f" and ?s1.0 = ?s1 and ?s2.0 = ?s2
        and t = "subscriptionStore ?f" and ?t1.0 = ?t1 and ?t2.0 = ?t2
        and configEqual = exConfigEqual
        and ?o1.0 = ?o and defaultName = "''default''" and ?u1.0 = ?u1 and ?u2.0 = ?u2
        and DetermineReplicas = exDetermineReplicas
        and infraConfig = "exInfrastructure None" and ingressConfig = "exIngress [] []"]
      nf g1 c1 g2 c2 g3 c3
    by (auto simp: ErrorfV_def ErrorfW_def errAlreadyExists_def exName_def)
qed

section \<open>Errors of the store\<close>

text \<open>
  C7, as the claim states it, fails: when the update of the configmap is answered with a
  timeout, the caller receives a new error that holds only a text, not the store's error.
\<close>

theorem store_error_unmodified_counterexample:
  "issued (configMapStore (faultAt 1 errTimeout))
     (snd (ensureTrustedCAConfigMap exName (configMapStore (faultAt 1 errTimeout))))
     = [(GetCall exName, None), (UpdateCall (updatedConfigMap exConfigMap), Some errTimeout)] \<and>
   errorOf (fst (ensureTrustedCAConfigMap exName (configMapStore (faultAt 1 errTimeout))))
     = Some (ErrorString ''failed to update configmap: request timed out'') \<and>
   ErrorString ''failed to update configmap: request timed out'' \<noteq> errTimeout"
proof -
  have "ensureTrustedCAConfigMap exName (configMapStore (faultAt 1 errTimeout)) =
      (Return (True, Some exConfigMap,
         Some (ErrorString ''failed to update configmap: request timed out'')),
       (configMapStore (faultAt 1 errTimeout))
         \<lparr>calls := [(GetCall exName, None),
                     (UpdateCall (updatedConfigMap exConfigMap), Some errTimeout)]\<rparr>)"
    by (simp add: ensureTrustedCAConfigMap_def ensureTrustedCAConfigMapWith_def
        desiredTrustedCAConfigMap_def currentTrustedCAConfigMap_def updateTrustedCAConfigMap_def
        labelIsSet_def updatedConfigMap_def store_defs error_defs example_defs)
  then show ?thesis
    by (simp add: errorOf_def issued_def configMapStore_def errTimeout_def)
qed

text \<open>
  C7, amended. In each ensure operation, an error answered by a store call ends the
  invocation, unless it is NotFound answered to a get or to a delete (AlreadyExists
  answered to the update of the configmap is left aside): every call before the last one
  succeeded or was so answered, so the failed call is not retried and nothing follows it,
  and the operation returns an error made from the store's error. The error is the store's
  own value for the gets of ensureTrustedCAConfigMap and for both calls of
  ensureDefaultIngressController; ensureTrustedCAConfigMap returns a new error that keeps
  only the text, after a prefix, for its create, update and delete, and the subscription
  functions return an error that wraps the store's error behind a prefix.
\<close>

theorem store_errors_end_invocation:
  "(ensureTrustedCAConfigMapWith d name s = (out, s') \<longrightarrow>
      list_all (\<lambda>x. succeeded x \<or> resolvedLocally x \<or> alreadyExistsOnUpdate x)
        (butlast (issued s s')) \<and>
      (\<forall>c err. issued s s' \<noteq> [] \<and> last (issued s s') = (c, Some err) \<and>
         \<not> resolvedLocally (c, Some err) \<and> \<not> alreadyExistsOnUpdate (c, Some err)
         \<longrightarrow> errorOf out = Some (configMapError c err))) \<and>
   (ensureServiceMeshOperatorSubscription configEqual name t = (out2, t') \<longrightarrow>
      list_all (\<lambda>x. succeeded x \<or> resolvedLocally x) (butlast (issued t t')) \<and>
      (\<forall>c err. issued t t' \<noteq> [] \<and> last (issued t t') = (c, Some err) \<and>
         \<not> resolvedLocally (c, Some err)
         \<longrightarrow> errorOf out2 = Some (subscriptionError c err))) \<and>
   (ensureDefaultIngressController DetermineReplicas defaultName infraConfig ingressConfig o1
      = (res, o2) \<longrightarrow>
      list_all (\<lambda>x. succeeded x \<or> resolvedLocally x)
        (butlast (issued (ingressControllers o1) (ingressControllers o2))) \<and>
      (\<forall>c err. issued (ingressControllers o1) (ingressControllers o2) \<noteq> [] \<and>
         last (issued (ingressControllers o1) (ingressControllers o2)) = (c, Some err) \<and>
         \<not> resolvedLocally (c, Some err)
         \<longrightarrow> res = Some err))"
  using configmap_errors_end_invocation [of d name s out s']
    subscription_errors_end_invocation [of configEqual name t out2 t']
    ingresscontroller_errors_end_invocation
      [of DetermineReplicas defaultName infraConfig ingressConfig o1 res o2]
  by blast

theorem store_errors_end_invocation_witness:
  "errorOf (fst (ensureTrustedCAConfigMapWith (desiredTrustedCAConfigMap exName) exName
                   (emptyStore\<lparr>faults := faultAt 1 errTimeout\<rparr>)))
     = Some (ErrorString ''failed to create configmap: request timed out'') \<and>
   errorOf (fst (ensureServiceMeshOperatorSubscription exConfigEqual exName
                   (subscriptionStore (faultAt 0 errTimeout))))
     = Some (WrapError ''failed to get subscription ns/obj: request timed out'' errTimeout) \<and>
   fst (ensureDefaultIngressController exDetermineReplicas ''default''
          (exInfrastructure None) (exIngress [] [])
          ((exOperator None [] [])\<lparr>ingressControllers := emptyStore\<lparr>faults := faultAt 0 errTimeout\<rparr>\<rparr>))
     = Some errTimeout"
proof -
  let ?s = "emptyStore\<lparr>faults := faultAt 1 errTimeout\<rparr> :: configMap store"
  let ?d = "fst (snd (desiredTrustedCAConfigMap exName))"
  let ?cs = "[(GetCall exName, Some errNotFound), (CreateCall ?d, Some errTimeout)]"
  let ?t = "subscriptionStore (faultAt 0 errTimeout)"
  let ?ct = "[(GetCall exName, Some errTimeout)] :: (subscription call \<times> error option) list"
  let ?o = "(exOperator None [] [])\<lparr>ingressControllers := emptyStore\<lparr>faults := faultAt 0 errTimeout\<rparr>\<rparr>"
  let ?n = "(namespace ?o, ''default'')"
  let ?cu = "[(GetCall ?n, Some errTimeout)] :: (ingressController call \<times> error option) list"
  obtain out where r1: "ensureTrustedCAConfigMapWith (desiredTrustedCAConfigMap exName) exName ?s
      = (out, ?s\<lparr>calls := ?cs\<rparr>)"
    by (simp add: ensureTrustedCAConfigMapWith_def desiredTrustedCAConfigMap_def
        currentTrustedCAConfigMap_def store_defs error_defs example_defs)
  obtain out2 where r2: "ensureServiceMeshOperatorSubscription exConfigEqual exName ?t
      = (out2, ?t\<lparr>calls := ?ct\<rparr>)"
    by (simp add: ensureServiceMeshOperatorSubscription_def currentSubscription_def
        store_defs error_defs example_defs)
  obtain res where r3: "ensureDefaultIngressController exDetermineReplicas ''default''
          (exInfrastructure None) (exIngress [] []) ?o
      = (res, ?o\<lparr>ingressControllers := (ingressControllers ?o)\<lparr>calls := ?cu\<rparr>\<rparr>)"
    by (simp add: ensureDefaultIngressController_def Let_def store_defs error_defs example_defs)
  have i1: "issued ?s (?s\<lparr>calls := ?cs\<rparr>) = ?cs"
    by (simp add: issued_def emptyStore_def)
  have i2: "issued ?t (?t\<lparr>calls := ?ct\<rparr>) = ?ct"
    by (simp add: issued_def subscriptionStore_def)
  have i3: "issued (ingressControllers ?o)
              (ingressControllers (?o\<lparr>ingressControllers := (ingressControllers ?o)\<lparr>calls := ?cu\<rparr>\<rparr>))
            = ?cu"
    by (simp add: issued_def emptyStore_def)
  have n1: "\<not> resolvedLocally (CreateCall ?d, Some errTimeout)"
    "\<not> alreadyExistsOnUpdate (CreateCall ?d, Some errTimeout)"
    by (simp_all add: resolvedLocally_def alreadyExistsOnUpdate_def)
  have n2: "\<not> resolvedLocally (GetCall k, Some errTimeout)" for k :: namespacedName
    by (simp add: resolvedLocally_def error_defs)
  have "errorOf out = Some (configMapError (CreateCall ?d) errTimeout)"
    using store_errors_end_invocation
      [of "desiredTrustedCAConfigMap exName" exName ?s out "?s\<lparr>calls := ?cs\<rparr>"]
      r1 i1 by (simp add: n1)
  moreover have "errorOf out2 = Some (subscriptionError (GetCall exName) errTimeout)"
    using store_errors_end_invocation
      [where configEqual = exConfigEqual and name = exName and t = ?t and ?out2.0 = out2
         and t' = "?t\<lparr>calls := ?ct\<rparr>"]
      r2 i2 by (simp add: n2)
  moreover have "res = Some errTimeout"
    using store_errors_end_invocation
      [where DetermineReplicas = exDetermineReplicas and defaultName = "''default''"
         and infraConfig = "exInfrastructure None" and ingressConfig = "exIngress [] []"
         and ?o1.0 = ?o and res = res
         and ?o2.0 = "?o\<lparr>ingressControllers := (ingressControllers ?o)\<lparr>calls := ?cu\<rparr>\<rparr>"]
      r3 i3 by (simp add: n2)
  ultimately show ?thesis
    using r1 r2 r3
    by (simp add: configMapError_def subscriptionError_def error_defs nnString_def exName_def)
qed

section \<open>What the comparators send to the store\<close>

text \<open>
  C3. When the comparator reports a change, the one call that updateSubscription and
  updateTrustedCAConfigMap issue is an update with a copy of the current object in which
  only the owned field differs: the Spec of the subscription is the desired one, and the
  label map of the configmap has the inject-trusted-cabundle label set to "true" and every
  other label as before. Name, namespace, annotations, resource version, status and data
  are those of the current object.
\<close>

theorem update_preserves_other_fields:
  "(fst (subscriptionChanged configEqual current desired) \<and>
    updateSubscription configEqual current desired s = (out, s')
    \<longrightarrow> (\<exists>merged a.
          subscriptionChanged configEqual current desired = (True, Some merged) \<and>
          issued s s' = [(UpdateCall merged, a)] \<and>
          merged = current\<lparr>Spec := Spec desired\<rparr> \<and>
          Name merged = Name current \<and> Namespace merged = Namespace current \<and>
          Labels merged = Labels current \<and> Annotations merged = Annotations current \<and>
          ResourceVersion merged = ResourceVersion current \<and>
          Status merged = Status current)) \<and>
   (\<not> labelIsSet cm \<and> updateTrustedCAConfigMap cm desiredCM t = (res, t')
    \<longrightarrow> (\<exists>merged a.
          issued t t' = [(UpdateCall merged, a)] \<and>
          merged = cm\<lparr>Labels := Labels merged\<rparr> \<and>
          labelOf merged injectLabel = Some ''true'' \<and>
          (\<forall>k. k \<noteq> injectLabel \<longrightarrow> labelOf merged k = labelOf cm k) \<and>
          Name merged = Name cm \<and> Namespace merged = Namespace cm \<and>
          Annotations merged = Annotations cm \<and>
          ResourceVersion merged = ResourceVersion cm \<and>
          Data merged = Data cm))"
proof (intro conjI impI)
  assume h: "fst (subscriptionChanged configEqual current desired) \<and>
    updateSubscription configEqual current desired s = (out, s')"
  let ?m = "current\<lparr>Spec := Spec desired\<rparr>"
  have ch: "subscriptionChanged configEqual current desired = (True, Some ?m)"
    using h by (auto simp: subscriptionChanged_def split: if_splits)
  obtain a where a: "clientUpdate ?m s = (a, s')"
    using h ch by (auto simp: updateSubscription_def split: prod.splits option.splits)
  have "issued s s' = [(UpdateCall ?m, a)]"
    using clientUpdate_log [OF a] by simp
  then show "\<exists>merged a.
          subscriptionChanged configEqual current desired = (True, Some merged) \<and>
          issued s s' = [(UpdateCall merged, a)] \<and>
          merged = current\<lparr>Spec := Spec desired\<rparr> \<and>
          Name merged = Name current \<and> Namespace merged = Namespace current \<and>
          Labels merged = Labels current \<and> Annotations merged = Annotations current \<and>
          ResourceVersion merged = ResourceVersion current \<and>
          Status merged = Status current"
    using ch by simp
next
  assume h: "\<not> labelIsSet cm \<and> updateTrustedCAConfigMap cm desiredCM t = (res, t')"
  let ?m = "updatedConfigMap cm"
  obtain a where a: "clientUpdate ?m t = (a, t')"
    using h by (auto simp: updateTrustedCAConfigMap_def split: prod.splits option.splits if_splits)
  have i: "issued t t' = [(UpdateCall ?m, a)]"
    using clientUpdate_log [OF a] by simp
  have "?m = cm\<lparr>Labels := Labels ?m\<rparr>"
    "labelOf ?m injectLabel = Some ''true''"
    "\<forall>k. k \<noteq> injectLabel \<longrightarrow> labelOf ?m k = labelOf cm k"
    "Name ?m = Name cm" "Namespace ?m = Namespace cm" "Annotations ?m = Annotations cm"
    "ResourceVersion ?m = ResourceVersion cm" "Data ?m = Data cm"
    by (simp_all add: updatedConfigMap_def labelOf_def split: option.splits)
  then show "\<exists>merged a.
          issued t t' = [(UpdateCall merged, a)] \<and>
          merged = cm\<lparr>Labels := Labels merged\<rparr> \<and>
          labelOf merged injectLabel = Some ''true'' \<and>
          (\<forall>k. k \<noteq> injectLabel \<longrightarrow> labelOf merged k = labelOf cm k) \<and>
          Name merged = Name cm \<and> Namespace merged = Namespace cm \<and>
          Annotations merged = Annotations cm \<and>
          ResourceVersion merged = ResourceVersion cm \<and>
          Data merged = Data cm"
    using i by blast
qed

theorem update_preserves_other_fields_witness:
  "(\<exists>merged a.
      issued (subscriptionStore noFaults)
        (snd (updateSubscription exConfigEqual exSubscription (fst (desiredSubscription exName))
                (subscriptionStore noFaults)))
        = [(UpdateCall merged, a)] \<and>
      Spec merged = Spec (fst (desiredSubscription exName)) \<and>
      ResourceVersion merged = 7 \<and>
      CurrentCSV (Status merged) = ''servicemeshoperator.v2.4.0'') \<and>
   (\<exists>merged a.
      issued (configMapStore noFaults)
        (snd (updateTrustedCAConfigMap exConfigMap (fst (snd (desiredTrustedCAConfigMap exName)))
                (configMapStore noFaults)))
        = [(UpdateCall merged, a)] \<and>
      labelOf merged injectLabel = Some ''true'' \<and>
      ResourceVersion merged = 7)"
proof -
  let ?d = "fst (desiredSubscription exName)"
  let ?s = "subscriptionStore noFaults"
  let ?e = "fst (snd (desiredTrustedCAConfigMap exName))"
  let ?t = "configMapStore noFaults"
  obtain out s' where r1: "updateSubscription exConfigEqual exSubscription ?d ?s = (out, s')"
    by (cases "updateSubscription exConfigEqual exSubscription ?d ?s")
  obtain res t' where r2: "updateTrustedCAConfigMap exConfigMap ?e ?t = (res, t')"
    by (cases "updateTrustedCAConfigMap exConfigMap ?e ?t")
  have c1: "fst (subscriptionChanged exConfigEqual exSubscription ?d)"
    by (simp add: subscriptionChanged_def specEqual_def exSubscription_def desiredSubscription_def)
  have c2: "\<not> labelIsSet exConfigMap"
    by (simp add: labelIsSet_def exConfigMap_def)
  have v: "ResourceVersion exSubscription = 7" "ResourceVersion exConfigMap = 7"
    "CurrentCSV (Status exSubscription) = ''servicemeshoperator.v2.4.0''"
    by (simp_all add: exSubscription_def exConfigMap_def)
  show ?thesis
    using update_preserves_other_fields
      [of exConfigEqual exSubscription ?d ?s out s' exConfigMap ?e ?t res t']
      c1 c2 r1 r2 v
    by auto
qed

section \<open>operator.go\<close>

lemma clientStatusPatch_log:
  "clientStatusPatch obj patch s = (r, s') \<Longrightarrow>
     faults s' = faults s \<and> calls s' = calls s @ [(StatusPatchCall obj, r)]"
  by (auto simp: clientStatusPatch_def called_def split: option.splits)

lemma patchDefaultPlacement_log:
  "patchDefaultPlacement name p s = (r, s') \<Longrightarrow>
     \<exists>new. calls s' = calls s @ new \<and> list_all (setsPlacement p) new"
  by (auto simp: patchDefaultPlacement_def setsPlacement_def
      split: prod.splits sum.splits dest!: clientGet_log clientStatusPatch_log)

lemma RetryOnConflict_log:
  "RetryOnConflict n (patchDefaultPlacement name p) s = (r, s') \<Longrightarrow>
     \<exists>new. calls s' = calls s @ new \<and> list_all (setsPlacement p) new"
proof (induction n arbitrary: s)
  case 0
  then show ?case by simp
next
  case (Suc n)
  obtain r1 s1 where f: "patchDefaultPlacement name p s = (r1, s1)"
    by (cases "patchDefaultPlacement name p s")
  then obtain new1 where n1: "calls s1 = calls s @ new1" "list_all (setsPlacement p) new1"
    using patchDefaultPlacement_log by blast
  show ?case
  proof (cases "\<exists>err. r1 = Some err \<and> IsConflict err \<and> n \<noteq> 0")
    case True
    then have "RetryOnConflict n (patchDefaultPlacement name p) s1 = (r, s')"
      using Suc.prems f by auto
    then obtain new2 where "calls s' = calls s1 @ new2" "list_all (setsPlacement p) new2"
      using Suc.IH by blast
    then show ?thesis using n1 by simp
  next
    case False
    then have "s' = s1"
      using Suc.prems f by (auto split: option.splits if_splits)
    then show ?thesis using n1 by blast
  qed
qed

lemma selectDefaultPlacement_Panic:
  "(selectDefaultPlacement items infraConfig = Panic) =
     (singleNodeSingleReplica items infraConfig \<and>
      PlatformStatus (InfrastructureStatus infraConfig) = None)"
  by (auto simp: selectDefaultPlacement_def singleNodeSingleReplica_def split: option.splits)

lemma selectDefaultPlacement_Return:
  "selectDefaultPlacement items infraConfig = Return p \<Longrightarrow>
     p = (if singleNodeNonePlatform items infraConfig
          then DefaultPlacementControlPlane else DefaultPlacementWorkers)"
  by (auto simp: selectDefaultPlacement_def singleNodeNonePlatform_def
      singleNodeSingleReplica_def split: option.splits if_splits)

lemma handleSingleNode_patches:
  assumes "handleSingleNode4Dot11Upgrade infraName ingressName o1 = (out, o2)"
    and "clientGet infraName (infrastructures o1) = (Inr infraConfig, sf)"
    and "clientList (nodes o1) = (Inr items, sn)"
  shows "list_all
           (setsPlacement (if singleNodeNonePlatform items infraConfig
                           then DefaultPlacementControlPlane else DefaultPlacementWorkers))
           (issued (ingressConfigs o1) (ingressConfigs o2))"
proof -
  let ?p = "if singleNodeNonePlatform items infraConfig
            then DefaultPlacementControlPlane else DefaultPlacementWorkers"
  obtain r sg where g: "clientGet ingressName (ingressConfigs o1) = (r, sg)"
    by (cases "clientGet ingressName (ingressConfigs o1)")
  then obtain a where l: "calls sg = calls (ingressConfigs o1) @ [(GetCall ingressName, a)]"
    using clientGet_log by blast
  have sp: "setsPlacement q (GetCall ingressName, a)" for q
    by (simp add: setsPlacement_def)
  show ?thesis
  proof (cases "\<exists>ing p. r = Inr ing \<and> DefaultPlacement (IngressStatus ing) = [] \<and>
                  selectDefaultPlacement items infraConfig = Return p")
    case True
    then obtain ing p where t: "r = Inr ing" "DefaultPlacement (IngressStatus ing) = []"
      "selectDefaultPlacement items infraConfig = Return p"
      by blast
    then have p: "p = ?p"
      using selectDefaultPlacement_Return by blast
    obtain e sp where rt: "RetryOnConflict DefaultBackoffSteps
        (patchDefaultPlacement ingressName p) sg = (e, sp)"
      by (cases "RetryOnConflict DefaultBackoffSteps (patchDefaultPlacement ingressName p) sg")
    then obtain new where n: "calls sp = calls sg @ new" "list_all (setsPlacement p) new"
      using RetryOnConflict_log by blast
    have "ingressConfigs o2 = sp"
      using assms g t rt
      by (auto simp: handleSingleNode4Dot11Upgrade_def split: option.splits)
    then show ?thesis
      using n l p sp by simp
  next
    case False
    then have "ingressConfigs o2 = sg"
      using assms g
      by (auto simp: handleSingleNode4Dot11Upgrade_def
          split: sum.splits outcome.splits if_splits)
    then show ?thesis
      using l sp by simp
  qed
qed


subsection \<open>The topology gate\<close>

lemmas operator_defs =
  handleSingleNode4Dot11Upgrade_def selectDefaultPlacement_def patchDefaultPlacement_def
  DefaultBackoffSteps_def SingleReplicaTopologyMode_def NonePlatformType_def
  DefaultPlacementControlPlane_def DefaultPlacementWorkers_def

lemma single_node_none_run:
  "handleSingleNode4Dot11Upgrade clusterName clusterName
     (exOperator (Some \<lparr>PlatformType = ''None''\<rparr>) [] [])
   = (Return None,
      (exOperator (Some \<lparr>PlatformType = ''None''\<rparr>) [] [])
        \<lparr>infrastructures :=
           (infrastructures (exOperator (Some \<lparr>PlatformType = ''None''\<rparr>) [] []))
             \<lparr>calls := [(GetCall clusterName, None)]\<rparr>,
         ingressConfigs :=
           \<lparr>objs = [(clusterName, (exIngress [] ''ControlPlane'')\<lparr>ResourceVersion := 4\<rparr>)],
            faults = noFaults,
            calls = [(GetCall clusterName, None), (GetCall clusterName, None),
                     (StatusPatchCall (exIngress [] ''ControlPlane''), None)]\<rparr>,
         nodes :=
           (nodes (exOperator (Some \<lparr>PlatformType = ''None''\<rparr>) [] []))
             \<lparr>calls := [(ListCall, None)]\<rparr>\<rparr>)"
  by (simp add: operator_defs store_defs example_defs numeral_eq_Suc)

text \<open>
  C10. The field of PlatformStatus is read without a nil check. The selection panics
  exactly when the node list has one item, both topologies are SingleReplica and
  PlatformStatus is nil, and handleSingleNode4Dot11Upgrade panics exactly when it gets
  that far (both configs fetched, default placement unset, nodes listed) on such inputs.
  So when PlatformStatus is non-nil whenever the three conditions hold, neither panics.
\<close>

theorem platform_status_nil_dereference:
  "(selectDefaultPlacement items infraConfig = Panic) =
     (length items = 1 \<and>
      ControlPlaneTopology (InfrastructureStatus infraConfig) = SingleReplicaTopologyMode \<and>
      InfrastructureTopology (InfrastructureStatus infraConfig) = SingleReplicaTopologyMode \<and>
      PlatformStatus (InfrastructureStatus infraConfig) = None) \<and>
   (fst (handleSingleNode4Dot11Upgrade infraName ingressName o1) = Panic) =
     (\<exists>infra sf ing sg nodeItems sn.
        clientGet infraName (infrastructures o1) = (Inr infra, sf) \<and>
        clientGet ingressName (ingressConfigs o1) = (Inr ing, sg) \<and>
        DefaultPlacement (IngressStatus ing) = [] \<and>
        clientList (nodes o1) = (Inr nodeItems, sn) \<and>
        singleNodeSingleReplica nodeItems infra \<and>
        PlatformStatus (InfrastructureStatus infra) = None) \<and>
   ((\<forall>infra sf nodeItems sn.
        clientGet infraName (infrastructures o1) = (Inr infra, sf) \<and>
        clientList (nodes o1) = (Inr nodeItems, sn) \<and>
        singleNodeSingleReplica nodeItems infra
        \<longrightarrow> PlatformStatus (InfrastructureStatus infra) \<noteq> None)
    \<longrightarrow> fst (handleSingleNode4Dot11Upgrade infraName ingressName o1) \<noteq> Panic)"
proof -
  have a: "(selectDefaultPlacement items infraConfig = Panic) =
     (length items = 1 \<and>
      ControlPlaneTopology (InfrastructureStatus infraConfig) = SingleReplicaTopologyMode \<and>
      InfrastructureTopology (InfrastructureStatus infraConfig) = SingleReplicaTopologyMode \<and>
      PlatformStatus (InfrastructureStatus infraConfig) = None)"
    using selectDefaultPlacement_Panic [of items infraConfig]
    by (auto simp: singleNodeSingleReplica_def)
  have b: "(fst (handleSingleNode4Dot11Upgrade infraName ingressName o1) = Panic) =
     (\<exists>infra sf ing sg nodeItems sn.
        clientGet infraName (infrastructures o1) = (Inr infra, sf) \<and>
        clientGet ingressName (ingressConfigs o1) = (Inr ing, sg) \<and>
        DefaultPlacement (IngressStatus ing) = [] \<and>
        clientList (nodes o1) = (Inr nodeItems, sn) \<and>
        singleNodeSingleReplica nodeItems infra \<and>
        PlatformStatus (InfrastructureStatus infra) = None)"
    by (auto simp: handleSingleNode4Dot11Upgrade_def selectDefaultPlacement_Panic [symmetric]
        split: prod.splits sum.splits outcome.splits option.splits)
  have c: "(\<forall>infra sf nodeItems sn.
        clientGet infraName (infrastructures o1) = (Inr infra, sf) \<and>
        clientList (nodes o1) = (Inr nodeItems, sn) \<and>
        singleNodeSingleReplica nodeItems infra
        \<longrightarrow> PlatformStatus (InfrastructureStatus infra) \<noteq> None)
    \<longrightarrow> fst (handleSingleNode4Dot11Upgrade infraName ingressName o1) \<noteq> Panic"
    unfolding b by blast
  show ?thesis
    using a b c by blast
qed

theorem platform_status_nil_dereference_witness:
  "fst (handleSingleNode4Dot11Upgrade clusterName clusterName (exOperator None [] [])) = Panic \<and>
   fst (handleSingleNode4Dot11Upgrade clusterName clusterName
          (exOperator (Some \<lparr>PlatformType = ''None''\<rparr>) [] [])) \<noteq> Panic \<and>
   selectDefaultPlacement [exNode] (exInfrastructure None) = Panic \<and>
   selectDefaultPlacement [exNode, exNode] (exInfrastructure None) \<noteq> Panic"
proof -
  let ?o = "exOperator None [] []"
  have g: "clientGet clusterName (infrastructures ?o)
             = (Inr (exInfrastructure None),
                (infrastructures ?o)\<lparr>calls := [(GetCall clusterName, None)]\<rparr>)"
    by (simp add: store_defs example_defs)
  have h: "clientGet clusterName (ingressConfigs ?o)
             = (Inr (exIngress [] []), (ingressConfigs ?o)\<lparr>calls := [(GetCall clusterName, None)]\<rparr>)"
    by (simp add: store_defs example_defs)
  have l: "clientList (nodes ?o) = (Inr [exNode], (nodes ?o)\<lparr>calls := [(ListCall, None)]\<rparr>)"
    by (simp add: store_defs example_defs)
  have p: "DefaultPlacement (IngressStatus (exIngress [] [])) = []"
    "singleNodeSingleReplica [exNode] (exInfrastructure None)"
    "PlatformStatus (InfrastructureStatus (exInfrastructure None)) = None"
    by (simp_all add: exIngress_def exInfrastructure_def singleNodeSingleReplica_def
        SingleReplicaTopologyMode_def)
  have a: "fst (handleSingleNode4Dot11Upgrade clusterName clusterName ?o) = Panic"
    using platform_status_nil_dereference [of _ _ clusterName clusterName ?o] g h l p
    by blast
  let ?q = "exOperator (Some \<lparr>PlatformType = ''None''\<rparr>) [] []"
  have g2: "clientGet clusterName (infrastructures ?q)
             = (Inr (exInfrastructure (Some \<lparr>PlatformType = ''None''\<rparr>)),
                (infrastructures ?q)\<lparr>calls := [(GetCall clusterName, None)]\<rparr>)"
    by (simp add: store_defs example_defs)
  have b: "fst (handleSingleNode4Dot11Upgrade clusterName clusterName ?q) \<noteq> Panic"
    using platform_status_nil_dereference [of _ _ clusterName clusterName ?q] g2
    by (auto simp: exInfrastructure_def)
  have c: "selectDefaultPlacement [exNode] (exInfrastructure None) = Panic"
    using platform_status_nil_dereference [of "[exNode]" "exInfrastructure None"]
    by (simp add: exInfrastructure_def SingleReplicaTopologyMode_def)
  have d: "selectDefaultPlacement [exNode, exNode] (exInfrastructure None) \<noteq> Panic"
    using platform_status_nil_dereference [of "[exNode, exNode]" "exInfrastructure None"]
    by simp
  show ?thesis
    using a b c d by blast
qed

subsection \<open>The log level\<close>

text \<open>
  C8. ensureLogLevel maps Debug to the Debug level (-1), Trace to -2, TraceAll to -3 and
  every other setting to the Info level (0). When the ingress config is fetched, the
  process-wide level ends as the computed level; SetLevel is called only when the
  computed level differs from the stored one, so calling ensureLogLevel again with the
  same setting calls SetLevel no more. When the fetch fails the level is left alone.
\<close>

theorem log_level_mapping:
  "desiredLogLevel IngressOperatorLogLevelDebug = DebugLevel \<and>
   desiredLogLevel IngressOperatorLogLevelTrace = - 2 \<and>
   desiredLogLevel IngressOperatorLogLevelTraceAll = - 3 \<and>
   (l \<noteq> IngressOperatorLogLevelDebug \<and> l \<noteq> IngressOperatorLogLevelTrace \<and>
    l \<noteq> IngressOperatorLogLevelTraceAll \<longrightarrow> desiredLogLevel l = InfoLevel) \<and>
   sint DebugLevel = - 1 \<and> sint InfoLevel = 0 \<and>
   sint (desiredLogLevel IngressOperatorLogLevelTrace) = - 2 \<and>
   sint (desiredLogLevel IngressOperatorLogLevelTraceAll) = - 3 \<and>
   (clientGet ([], ''cluster'') (ingressConfigs o1) = (Inr ingressConfig, s') \<longrightarrow>
      CurrentLogLevel (ensureLogLevel o1)
        = desiredLogLevel (OperatorLogLevel (IngressSpec ingressConfig)) \<and>
      setLevelCalls (ensureLogLevel o1)
        = (if desiredLogLevel (OperatorLogLevel (IngressSpec ingressConfig)) = CurrentLogLevel o1
           then setLevelCalls o1
           else setLevelCalls o1
                  @ [desiredLogLevel (OperatorLogLevel (IngressSpec ingressConfig))])) \<and>
   (clientGet ([], ''cluster'') (ingressConfigs o1) = (Inr ingressConfig, s') \<and>
    desiredLogLevel (OperatorLogLevel (IngressSpec ingressConfig)) = CurrentLogLevel o1 \<longrightarrow>
      ensureLogLevel o1 = o1\<lparr>ingressConfigs := s'\<rparr>) \<and>
   (clientGet ([], ''cluster'') (ingressConfigs o1) = (Inr ingressConfig, s') \<and>
    clientGet ([], ''cluster'') s' = (Inr ingressConfig, s'') \<longrightarrow>
      setLevelCalls (ensureLogLevel (ensureLogLevel o1)) = setLevelCalls (ensureLogLevel o1) \<and>
      CurrentLogLevel (ensureLogLevel (ensureLogLevel o1)) = CurrentLogLevel (ensureLogLevel o1)) \<and>
   (clientGet ([], ''cluster'') (ingressConfigs o1) = (Inl err, s') \<longrightarrow>
      ensureLogLevel o1 = o1\<lparr>ingressConfigs := s'\<rparr>)"
proof -
  have m: "desiredLogLevel IngressOperatorLogLevelDebug = DebugLevel"
    "desiredLogLevel IngressOperatorLogLevelTrace = - 2"
    "desiredLogLevel IngressOperatorLogLevelTraceAll = - 3"
    by (simp_all add: desiredLogLevel_def IngressOperatorLogLevelDebug_def
        IngressOperatorLogLevelTrace_def IngressOperatorLogLevelTraceAll_def)
  have o: "l \<noteq> IngressOperatorLogLevelDebug \<and> l \<noteq> IngressOperatorLogLevelTrace \<and>
    l \<noteq> IngressOperatorLogLevelTraceAll \<longrightarrow> desiredLogLevel l = InfoLevel"
    by (simp add: desiredLogLevel_def)
  have v: "sint DebugLevel = - 1" "sint InfoLevel = 0"
    "sint (- 2 :: 8 word) = - 2" "sint (- 3 :: 8 word) = - 3"
    by (simp_all add: DebugLevel_def InfoLevel_def)
  have g: "ensureLogLevel o1 =
      (if CurrentLogLevel o1 \<noteq> desiredLogLevel (OperatorLogLevel (IngressSpec ic))
       then o1\<lparr>ingressConfigs := s1,
               CurrentLogLevel := desiredLogLevel (OperatorLogLevel (IngressSpec ic)),
               setLevelCalls := setLevelCalls o1
                 @ [desiredLogLevel (OperatorLogLevel (IngressSpec ic))]\<rparr>
       else o1\<lparr>ingressConfigs := s1\<rparr>)"
    if "clientGet ([], ''cluster'') (ingressConfigs o1) = (Inr ic, s1)" for o1 ic s1
    using that by (simp add: ensureLogLevel_def Let_def)
  have twice: "setLevelCalls (ensureLogLevel (ensureLogLevel o1)) = setLevelCalls (ensureLogLevel o1) \<and>
      CurrentLogLevel (ensureLogLevel (ensureLogLevel o1)) = CurrentLogLevel (ensureLogLevel o1)"
    if a: "clientGet ([], ''cluster'') (ingressConfigs o1) = (Inr ingressConfig, s')"
      and b: "clientGet ([], ''cluster'') s' = (Inr ingressConfig, s'')"
  proof -
    let ?o2 = "ensureLogLevel o1"
    have i: "ingressConfigs ?o2 = s'"
      and c: "CurrentLogLevel ?o2 = desiredLogLevel (OperatorLogLevel (IngressSpec ingressConfig))"
      using g [OF a] by (simp_all split: if_splits)
    have "clientGet ([], ''cluster'') (ingressConfigs ?o2) = (Inr ingressConfig, s'')"
      using b i by simp
    from g [OF this] c show ?thesis by simp
  qed
  have f: "clientGet ([], ''cluster'') (ingressConfigs o1) = (Inl err, s') \<longrightarrow>
      ensureLogLevel o1 = o1\<lparr>ingressConfigs := s'\<rparr>"
    by (simp add: ensureLogLevel_def)
  show ?thesis
    using m o v g [of o1 ingressConfig s'] twice f by (simp add: m)
qed

theorem log_level_mapping_witness:
  "setLevelCalls (ensureLogLevel (exOperator None ''Debug'' [])) = [DebugLevel] \<and>
   setLevelCalls (ensureLogLevel (ensureLogLevel (exOperator None ''Debug'' []))) = [DebugLevel] \<and>
   CurrentLogLevel (ensureLogLevel (ensureLogLevel (exOperator None ''Debug'' []))) = DebugLevel \<and>
   setLevelCalls (ensureLogLevel (exOperator None ''Normal'' [])) = []"
proof -
  let ?o = "exOperator None ''Debug'' []"
  let ?s1 = "(ingressConfigs ?o)\<lparr>calls := [(GetCall ([], ''cluster''), None)]\<rparr>"
  let ?s2 = "(ingressConfigs ?o)\<lparr>calls := [(GetCall ([], ''cluster''), None),
                                            (GetCall ([], ''cluster''), None)]\<rparr>"
  have g1: "clientGet ([], ''cluster'') (ingressConfigs ?o) = (Inr (exIngress ''Debug'' []), ?s1)"
    by (simp add: store_defs example_defs)
  have g2: "clientGet ([], ''cluster'') ?s1 = (Inr (exIngress ''Debug'' []), ?s2)"
    by (simp add: store_defs example_defs)
  have d: "desiredLogLevel (OperatorLogLevel (IngressSpec (exIngress ''Debug'' []))) = DebugLevel"
    "CurrentLogLevel ?o = InfoLevel" "setLevelCalls ?o = []" "DebugLevel \<noteq> InfoLevel"
    by (simp_all add: desiredLogLevel_def exIngress_def exOperator_def
        IngressOperatorLogLevelDebug_def DebugLevel_def InfoLevel_def)
  let ?n = "exOperator None ''Normal'' []"
  let ?t1 = "(ingressConfigs ?n)\<lparr>calls := [(GetCall ([], ''cluster''), None)]\<rparr>"
  have g3: "clientGet ([], ''cluster'') (ingressConfigs ?n) = (Inr (exIngress ''Normal'' []), ?t1)"
    by (simp add: store_defs example_defs)
  have e: "desiredLogLevel (OperatorLogLevel (IngressSpec (exIngress ''Normal'' []))) = InfoLevel"
    "CurrentLogLevel ?n = InfoLevel" "setLevelCalls ?n = []"
    by (simp_all add: desiredLogLevel_def exIngress_def exOperator_def
        IngressOperatorLogLevelDebug_def IngressOperatorLogLevelTrace_def
        IngressOperatorLogLevelTraceAll_def)
  have a: "setLevelCalls (ensureLogLevel ?o) = [DebugLevel]"
    "CurrentLogLevel (ensureLogLevel ?o) = DebugLevel"
    using log_level_mapping [of _ ?o "exIngress ''Debug'' []" ?s1] g1 d by simp_all
  have b: "setLevelCalls (ensureLogLevel (ensureLogLevel ?o)) = setLevelCalls (ensureLogLevel ?o)"
    "CurrentLogLevel (ensureLogLevel (ensureLogLevel ?o)) = CurrentLogLevel (ensureLogLevel ?o)"
    using log_level_mapping [of _ ?o "exIngress ''Debug'' []" ?s1 ?s2] g1 g2 by simp_all
  have c: "setLevelCalls (ensureLogLevel ?n) = []"
    using log_level_mapping [of _ ?n "exIngress ''Normal'' []" ?t1] g3 e by simp
  show ?thesis
    using a b c by simp
qed

section \<open>Invoking an ensure operation twice\<close>

lemma clientGet_found:
  "clientGet key s = (Inr obj, s') \<Longrightarrow> map_of (objs s) key = Some obj"
  by (auto simp: clientGet_def split: option.splits)

lemma clientGet_quiet:
  "fault s = None \<Longrightarrow> map_of (objs s) key = Some obj \<Longrightarrow>
     clientGet key s = (Inr obj, called (GetCall key) None s)"
  by (simp add: clientGet_def)

lemma clientCreate_ok:
  "clientCreate obj s = (None, s') \<Longrightarrow>
     objs s' = AList.update (objKey obj) (obj\<lparr>ResourceVersion := 1\<rparr>) (objs s)"
  by (auto simp: clientCreate_def called_def split: option.splits)

lemma clientUpdate_ok:
  "clientUpdate obj s = (None, s') \<Longrightarrow>
     \<exists>n. objs s' = AList.update (objKey obj) (obj\<lparr>ResourceVersion := n\<rparr>) (objs s)"
  by (auto simp: clientUpdate_def called_def split: option.splits if_splits)

lemma wellKeyed_key:
  "wellKeyed s \<Longrightarrow> map_of (objs s) key = Some obj \<Longrightarrow> objKey obj = key"
  by (auto simp: wellKeyed_def list_all_iff dest: map_of_SomeD)

lemma currentTrustedCAConfigMap_spec:
  "currentTrustedCAConfigMap name s = ((have, cur, err), s') \<Longrightarrow>
     objs s' = objs s \<and> (\<exists>a. calls s' = calls s @ [(GetCall name, a)]) \<and>
     (if have then \<exists>c. cur = Some c \<and> map_of (objs s) name = Some c \<and> err = None
      else cur = None)"
  by (auto simp: currentTrustedCAConfigMap_def split: prod.splits sum.splits if_splits
      dest: clientGet_log clientGet_found)

lemma objKey_updated: "objKey (updatedConfigMap cur) = objKey cur"
  by (simp add: objKey_def updatedConfigMap_def)

lemma updateTrustedCAConfigMap_spec:
  "updateTrustedCAConfigMap cur d s = ((u, None), s') \<Longrightarrow>
     (labelIsSet cur \<and> s' = s \<and> \<not> u) \<or>
     (\<exists>a. calls s' = calls s @ [(UpdateCall (updatedConfigMap cur), a)] \<and>
        (case a of
           None \<Rightarrow> u \<and> (\<exists>n. objs s' = AList.update (objKey cur)
                                 ((updatedConfigMap cur)\<lparr>ResourceVersion := n\<rparr>) (objs s))
         | Some e \<Rightarrow> IsAlreadyExists e))"
proof -
  assume r: "updateTrustedCAConfigMap cur d s = ((u, None), s')"
  show ?thesis
  proof (cases "labelIsSet cur")
    case True
    then show ?thesis using r by (simp add: updateTrustedCAConfigMap_def)
  next
    case False
    obtain a where a: "clientUpdate (updatedConfigMap cur) s = (a, s')"
      using r False
      by (auto simp: updateTrustedCAConfigMap_def split: prod.splits option.splits if_splits)
    have l: "calls s' = calls s @ [(UpdateCall (updatedConfigMap cur), a)]"
      using clientUpdate_log [OF a] by simp
    show ?thesis
    proof (cases a)
      case None
      then have "u"
        using r False a by (simp add: updateTrustedCAConfigMap_def)
      moreover have "\<exists>n. objs s' = AList.update (objKey cur)
          ((updatedConfigMap cur)\<lparr>ResourceVersion := n\<rparr>) (objs s)"
        using clientUpdate_ok [OF a [unfolded None]] by (simp add: objKey_updated)
      ultimately show ?thesis using l None by simp
    next
      case (Some e)
      then have "IsAlreadyExists e"
        using r False a by (auto simp: updateTrustedCAConfigMap_def split: if_splits)
      then show ?thesis using l Some by simp
    qed
  qed
qed

lemma labelIsSet_updated: "labelIsSet ((updatedConfigMap cur)\<lparr>ResourceVersion := n\<rparr>)"
  by (simp add: labelIsSet_def updatedConfigMap_def mapIndex_def)

lemma labelIsSet_desired:
  "labelIsSet ((fst (snd (desiredTrustedCAConfigMap name)))\<lparr>ResourceVersion := n\<rparr>)"
  by (simp add: labelIsSet_def desiredTrustedCAConfigMap_def mapIndex_def)

lemma configmap_after_success:
  assumes wk: "wellKeyed s"
    and r: "ensureTrustedCAConfigMap name s = (Return (have, cur, None), s1)"
    and na: "list_all (\<lambda>x. \<not> alreadyExistsOnUpdate x) (issued s s1)"
  shows "\<exists>cur2. map_of (objs s1) name = Some cur2 \<and> labelIsSet cur2"
proof -
  let ?d = "fst (snd (desiredTrustedCAConfigMap name))"
  have dk: "objKey ?d = name"
    by (simp add: desiredTrustedCAConfigMap_def objKey_def)
  obtain h0 c0 e0 s0 where cur: "currentTrustedCAConfigMap name s = ((h0, c0, e0), s0)"
    by (cases "currentTrustedCAConfigMap name s") auto
  obtain a0 where s0: "objs s0 = objs s" "calls s0 = calls s @ [(GetCall name, a0)]"
    using currentTrustedCAConfigMap_spec [OF cur] by auto
  have e0: "e0 = None"
    using r cur
    by (cases e0) (simp_all add: ensureTrustedCAConfigMap_def ensureTrustedCAConfigMapWith_def
        desiredTrustedCAConfigMap_def)
  show ?thesis
  proof (cases h0)
    case True
    then obtain c where c: "c0 = Some c" "map_of (objs s) name = Some c"
      using currentTrustedCAConfigMap_spec [OF cur] by auto
    have ck: "objKey c = name"
      using wellKeyed_key [OF wk c(2)] .
    obtain u e s2 where up: "updateTrustedCAConfigMap c ?d s0 = ((u, e), s2)"
      by (cases "updateTrustedCAConfigMap c ?d s0") auto
    have e: "e = None"
      using r cur e0 True c up
      by (cases e) (simp_all add: ensureTrustedCAConfigMap_def ensureTrustedCAConfigMapWith_def
          desiredTrustedCAConfigMap_def)
    have fin: "if u then (\<exists>r3. currentTrustedCAConfigMap name s2 = (r3, s1)) else s1 = s2"
      using r cur e0 True c up e
      by (auto simp: ensureTrustedCAConfigMap_def ensureTrustedCAConfigMapWith_def
          desiredTrustedCAConfigMap_def split: prod.splits)
    from updateTrustedCAConfigMap_spec [OF up [unfolded e]]
    consider (same) "labelIsSet c" "s2 = s0" "\<not> u"
      | (sent) a where "calls s2 = calls s0 @ [(UpdateCall (updatedConfigMap c), a)]"
          "case a of None \<Rightarrow> u \<and> (\<exists>n. objs s2 = AList.update (objKey c)
                                 ((updatedConfigMap c)\<lparr>ResourceVersion := n\<rparr>) (objs s0))
           | Some e \<Rightarrow> IsAlreadyExists e"
      by blast
    then show ?thesis
    proof cases
      case same
      then have "objs s1 = objs s"
        using fin s0 by simp
      then show ?thesis
        using c same by auto
    next
      case sent
      show ?thesis
      proof (cases a)
        case None
        then obtain n where n: "u" "objs s2 = AList.update name
            ((updatedConfigMap c)\<lparr>ResourceVersion := n\<rparr>) (objs s0)"
          using sent ck by auto
        then obtain r3 where "currentTrustedCAConfigMap name s2 = (r3, s1)"
          using fin by auto
        then have "objs s1 = objs s2"
          using currentTrustedCAConfigMap_spec [of name s2 "fst r3" "fst (snd r3)" "snd (snd r3)" s1]
          by simp
        then have "map_of (objs s1) name = Some ((updatedConfigMap c)\<lparr>ResourceVersion := n\<rparr>)"
          using n by (simp add: update_conv')
        then show ?thesis
          using labelIsSet_updated by blast
      next
        case (Some err)
        then have ae: "alreadyExistsOnUpdate (UpdateCall (updatedConfigMap c), Some err)"
          using sent by (simp add: alreadyExistsOnUpdate_def)
        have "\<exists>rest. calls s1 = calls s2 @ rest"
        proof (cases u)
          case True
          then obtain r3 where "currentTrustedCAConfigMap name s2 = (r3, s1)"
            using fin by auto
          then show ?thesis
            using currentTrustedCAConfigMap_spec [of name s2 "fst r3" "fst (snd r3)" "snd (snd r3)" s1]
            by auto
        next
          case False
          then show ?thesis using fin by simp
        qed
        then obtain rest where "calls s1 = calls s @ [(GetCall name, a0),
            (UpdateCall (updatedConfigMap c), Some err)] @ rest"
          using s0 sent Some by auto
        then have "issued s s1 = [(GetCall name, a0),
            (UpdateCall (updatedConfigMap c), Some err)] @ rest"
          by simp
        then show ?thesis
          using na ae by simp
      qed
    qed
  next
    case False
    then have c0: "c0 = None"
      using currentTrustedCAConfigMap_spec [OF cur] by auto
    obtain a s2 where cr: "clientCreate ?d s0 = (a, s2)"
      by (cases "clientCreate ?d s0")
    have a: "a = None"
      using r cur e0 False cr
      by (cases a) (simp_all add: ensureTrustedCAConfigMap_def ensureTrustedCAConfigMapWith_def
          desiredTrustedCAConfigMap_def)
    have "\<exists>r3. currentTrustedCAConfigMap name s2 = (r3, s1)"
      using r cur e0 False cr a
      by (auto simp: ensureTrustedCAConfigMap_def ensureTrustedCAConfigMapWith_def
          desiredTrustedCAConfigMap_def split: prod.splits)
    then obtain r3 where "currentTrustedCAConfigMap name s2 = (r3, s1)"
      by blast
    then have "objs s1 = objs s2"
      using currentTrustedCAConfigMap_spec [of name s2 "fst r3" "fst (snd r3)" "snd (snd r3)" s1]
      by simp
    moreover have "objs s2 = AList.update name (?d\<lparr>ResourceVersion := 1\<rparr>) (objs s0)"
      using clientCreate_ok [OF cr [unfolded a]] dk by simp
    ultimately have "map_of (objs s1) name = Some (?d\<lparr>ResourceVersion := 1\<rparr>)"
      by (simp add: update_conv')
    then show ?thesis
      using labelIsSet_desired by blast
  qed
qed

lemma configmap_noop:
  assumes "fault s1 = None" and "map_of (objs s1) name = Some cur2" and "labelIsSet cur2"
  shows "ensureTrustedCAConfigMap name s1
           = (Return (True, Some cur2, None), called (GetCall name) None s1)"
  using assms clientGet_quiet [OF assms(1,2)]
  by (simp add: ensureTrustedCAConfigMap_def ensureTrustedCAConfigMapWith_def
      desiredTrustedCAConfigMap_def currentTrustedCAConfigMap_def updateTrustedCAConfigMap_def)


lemma currentSubscription_spec:
  "currentSubscription name s = ((have, cur, err), s') \<Longrightarrow>
     objs s' = objs s \<and>
     (if have then \<exists>c. cur = Some c \<and> map_of (objs s) name = Some c \<and> err = None
      else cur = None)"
  by (auto simp: currentSubscription_def split: prod.splits sum.splits if_splits
      dest: clientGet_log clientGet_found)

lemma updateSubscription_spec:
  assumes "updateSubscription configEqual cur d s = (Return (u, None), s')"
  shows "(specEqual configEqual (Spec cur) (Spec d) \<and> s' = s \<and> \<not> u) \<or>
         (u \<and> (\<exists>n. objs s' = AList.update (objKey cur)
                        (cur\<lparr>Spec := Spec d, ResourceVersion := n\<rparr>) (objs s)))"
proof (cases "specEqual configEqual (Spec cur) (Spec d)")
  case True
  then show ?thesis
    using assms by (simp add: updateSubscription_def subscriptionChanged_def)
next
  case False
  then obtain a where a: "clientUpdate (cur\<lparr>Spec := Spec d\<rparr>) s = (a, s')"
    using assms
    by (auto simp: updateSubscription_def subscriptionChanged_def split: prod.splits option.splits)
  then have "a = None" "u"
    using assms False
    by (auto simp: updateSubscription_def subscriptionChanged_def split: option.splits)
  then show ?thesis
    using clientUpdate_ok [of "cur\<lparr>Spec := Spec d\<rparr>" s s'] a by (simp add: objKey_def)
qed

lemma specEqual_desired:
  "Spec cur = Spec (fst (desiredSubscription name)) \<Longrightarrow>
     specEqual configEqual (Spec cur) (Spec (fst (desiredSubscription name)))"
  by (simp add: specEqual_def desiredSubscription_def)

lemma subscription_after_success:
  assumes wk: "wellKeyed t"
    and r: "ensureServiceMeshOperatorSubscription configEqual name t
              = (Return (have, cur, None), t1)"
  shows "\<exists>cur2. map_of (objs t1) name = Some cur2 \<and>
           specEqual configEqual (Spec cur2) (Spec (fst (desiredSubscription name)))"
proof -
  obtain d where ds: "desiredSubscription name = (d, None)"
    by (simp add: desiredSubscription_def)
  have dk: "objKey d = name"
    using ds by (auto simp: desiredSubscription_def objKey_def)
  have d: "fst (desiredSubscription name) = d"
    using ds by simp
  obtain h0 c0 e0 t0 where cur: "currentSubscription name t = ((h0, c0, e0), t0)"
    by (cases "currentSubscription name t") auto
  have t0: "objs t0 = objs t"
    using currentSubscription_spec [OF cur] by simp
  have e0: "e0 = None"
    using r cur by (cases e0) (simp_all add: ensureServiceMeshOperatorSubscription_def)
  have refetch: "objs t1 = objs t2" if "currentSubscription name t2 = (r3, t1)" for r3 t2
    using currentSubscription_spec [of name t2 "fst r3" "fst (snd r3)" "snd (snd r3)" t1] that
    by simp
  show ?thesis
  proof (cases h0)
    case True
    then obtain c where c: "c0 = Some c" "map_of (objs t) name = Some c"
      using currentSubscription_spec [OF cur] by auto
    have ck: "objKey c = name"
      using wellKeyed_key [OF wk c(2)] .
    obtain out t2 where up: "updateSubscription configEqual c d t0 = (out, t2)"
      by (cases "updateSubscription configEqual c d t0")
    then obtain u where out: "out = Return (u, None)"
      using r cur e0 True c ds
      by (auto simp: ensureServiceMeshOperatorSubscription_def
          split: outcome.splits prod.splits option.splits)
    have fin: "if u then (\<exists>r3. currentSubscription name t2 = (r3, t1)) else t1 = t2"
      using r cur e0 True c ds up out
      by (auto simp: ensureServiceMeshOperatorSubscription_def split: prod.splits)
    from updateSubscription_spec [OF up [unfolded out]]
    show ?thesis
    proof
      assume "specEqual configEqual (Spec c) (Spec d) \<and> t2 = t0 \<and> \<not> u"
      then show ?thesis
        using fin t0 c d by auto
    next
      assume "u \<and> (\<exists>n. objs t2 = AList.update (objKey c)
                        (c\<lparr>Spec := Spec d, ResourceVersion := n\<rparr>) (objs t0))"
      then obtain n where n: "u"
        "objs t2 = AList.update name (c\<lparr>Spec := Spec d, ResourceVersion := n\<rparr>) (objs t0)"
        using ck by auto
      then have "objs t1 = objs t2"
        using fin refetch by auto
      then have "map_of (objs t1) name = Some (c\<lparr>Spec := Spec d, ResourceVersion := n\<rparr>)"
        using n by (simp add: update_conv')
      then show ?thesis
        using specEqual_desired [of "c\<lparr>Spec := Spec d, ResourceVersion := n\<rparr>" name] d
        by auto
    qed
  next
    case False
    obtain a t2 where cr: "createSubscription d t0 = (a, t2)"
      by (cases "createSubscription d t0")
    have a: "a = None"
      using r cur e0 False cr ds
      by (cases a) (simp_all add: ensureServiceMeshOperatorSubscription_def)
    then have cc: "clientCreate d t0 = (None, t2)"
      using cr by (auto simp: createSubscription_def split: prod.splits option.splits)
    have "\<exists>r3. currentSubscription name t2 = (r3, t1)"
      using r cur e0 False cr a ds
      by (auto simp: ensureServiceMeshOperatorSubscription_def split: prod.splits)
    then have "objs t1 = objs t2"
      using refetch by auto
    moreover have "objs t2 = AList.update name (d\<lparr>ResourceVersion := 1\<rparr>) (objs t0)"
      using clientCreate_ok [OF cc] dk by simp
    ultimately have "map_of (objs t1) name = Some (d\<lparr>ResourceVersion := 1\<rparr>)"
      by (simp add: update_conv')
    then show ?thesis
      using specEqual_desired [of "d\<lparr>ResourceVersion := 1\<rparr>" name] d by auto
  qed
qed

lemma subscription_noop:
  assumes "fault t1 = None" and "map_of (objs t1) name = Some cur2"
    and "specEqual configEqual (Spec cur2) (Spec (fst (desiredSubscription name)))"
  shows "ensureServiceMeshOperatorSubscription configEqual name t1
           = (Return (True, Some cur2, None), called (GetCall name) None t1)"
proof -
  obtain d where ds: "desiredSubscription name = (d, None)"
    by (simp add: desiredSubscription_def)
  have "currentSubscription name t1 = ((True, Some cur2, None), called (GetCall name) None t1)"
    using clientGet_quiet [OF assms(1,2)] by (simp add: currentSubscription_def)
  moreover have "updateSubscription configEqual cur2 d s = (Return (False, None), s)" for s
    using assms(3) ds by (simp add: updateSubscription_def subscriptionChanged_def)
  ultimately show ?thesis
    using ds by (simp add: ensureServiceMeshOperatorSubscription_def)
qed

lemma ingresscontroller_after_success:
  assumes "ensureDefaultIngressController DetermineReplicas defaultName infraConfig ingressConfig o1
             = (None, o2)"
  shows "namespace o2 = namespace o1 \<and>
         (\<exists>ic. map_of (objs (ingressControllers o2)) (namespace o1, defaultName) = Some ic)"
proof -
  let ?n = "(namespace o1, defaultName)"
  let ?d = "defaultIngressController DetermineReplicas ?n infraConfig ingressConfig"
  obtain g s1 where g: "clientGet ?n (ingressControllers o1) = (g, s1)"
    by (cases "clientGet ?n (ingressControllers o1)")
  have s1: "objs s1 = objs (ingressControllers o1)"
    using clientGet_log [OF g] by simp
  show ?thesis
  proof (cases g)
    case (Inr ic)
    then have "o2 = o1\<lparr>ingressControllers := s1\<rparr>"
      using assms g by (simp add: ensureDefaultIngressController_def Let_def)
    then show ?thesis
      using clientGet_found [of ?n "ingressControllers o1" ic s1] g Inr s1 by simp
  next
    case (Inl err)
    obtain a s2 where c: "clientCreate ?d s1 = (a, s2)"
      by (cases "clientCreate ?d s1")
    then have a: "a = None" "o2 = o1\<lparr>ingressControllers := s2\<rparr>"
      using assms g Inl
      by (auto simp: ensureDefaultIngressController_def Let_def split: if_splits option.splits)
    have "objKey ?d = ?n"
      by (simp add: defaultIngressController_def objKey_def)
    then have "map_of (objs s2) ?n = Some (?d\<lparr>ResourceVersion := 1\<rparr>)"
      using clientCreate_ok [OF c [unfolded a(1)]] by (simp add: update_conv')
    then show ?thesis
      using a by simp
  qed
qed

lemma ingresscontroller_noop:
  assumes "fault (ingressControllers o2) = None"
    and "map_of (objs (ingressControllers o2)) (namespace o2, defaultName) = Some ic"
  shows "ensureDefaultIngressController DetermineReplicas defaultName infraConfig ingressConfig o2
           = (None, o2\<lparr>ingressControllers :=
                called (GetCall (namespace o2, defaultName)) None (ingressControllers o2)\<rparr>)"
  using clientGet_quiet [OF assms]
  by (simp add: ensureDefaultIngressController_def Let_def)

text \<open>
  C2. After a successful call of an ensure operation, a second call on the store as the
  first one left it, answered from the store's contents, issues a single get and no
  write, leaves the objects of the store as they are and returns successfully: the
  configmap has its label, the Spec of the subscription compares equal to the desired
  one, and the default ingresscontroller exists. The stores file every object under its
  own name, and the update of the first call was not answered AlreadyExists, an answer
  that the store of the specification never gives to an update.
\<close>

theorem ensure_twice_is_noop:
  "(wellKeyed s \<and>
    ensureTrustedCAConfigMap name s = (Return (had, cur, None), s1) \<and>
    list_all (\<lambda>x. \<not> alreadyExistsOnUpdate x) (issued s s1) \<and>
    fault s1 = None
    \<longrightarrow> (\<exists>cur2 s2.
          ensureTrustedCAConfigMap name s1 = (Return (True, Some cur2, None), s2) \<and>
          labelIsSet cur2 \<and>
          issued s1 s2 = [(GetCall name, None)] \<and> objs s2 = objs s1)) \<and>
   (wellKeyed t \<and>
    ensureServiceMeshOperatorSubscription configEqual name t = (Return (had', cur', None), t1) \<and>
    fault t1 = None
    \<longrightarrow> (\<exists>cur2 t2.
          ensureServiceMeshOperatorSubscription configEqual name t1
            = (Return (True, Some cur2, None), t2) \<and>
          fst (subscriptionChanged configEqual cur2 (fst (desiredSubscription name))) = False \<and>
          issued t1 t2 = [(GetCall name, None)] \<and> objs t2 = objs t1)) \<and>
   (ensureDefaultIngressController DetermineReplicas defaultName infraConfig ingressConfig o1
      = (None, o2) \<and>
    fault (ingressControllers o2) = None
    \<longrightarrow> (\<exists>o3.
          ensureDefaultIngressController DetermineReplicas defaultName infraConfig' ingressConfig' o2
            = (None, o3) \<and>
          issued (ingressControllers o2) (ingressControllers o3)
            = [(GetCall (namespace o1, defaultName), None)] \<and>
          objs (ingressControllers o3) = objs (ingressControllers o2)))"
proof (intro conjI impI)
  assume h: "wellKeyed s \<and>
    ensureTrustedCAConfigMap name s = (Return (had, cur, None), s1) \<and>
    list_all (\<lambda>x. \<not> alreadyExistsOnUpdate x) (issued s s1) \<and>
    fault s1 = None"
  then obtain cur2 where c: "map_of (objs s1) name = Some cur2" "labelIsSet cur2"
    using configmap_after_success by blast
  have "ensureTrustedCAConfigMap name s1
          = (Return (True, Some cur2, None), called (GetCall name) None s1)"
    using configmap_noop h c by blast
  moreover have "issued s1 (called (GetCall name) None s1) = [(GetCall name, None)]"
    "objs (called (GetCall name) None s1) = objs s1"
    by (simp_all add: called_def issued_def)
  ultimately show "\<exists>cur2 s2.
          ensureTrustedCAConfigMap name s1 = (Return (True, Some cur2, None), s2) \<and>
          labelIsSet cur2 \<and>
          issued s1 s2 = [(GetCall name, None)] \<and> objs s2 = objs s1"
    using c by blast
next
  assume h: "wellKeyed t \<and>
    ensureServiceMeshOperatorSubscription configEqual name t = (Return (had', cur', None), t1) \<and>
    fault t1 = None"
  then obtain cur2 where c: "map_of (objs t1) name = Some cur2"
    "specEqual configEqual (Spec cur2) (Spec (fst (desiredSubscription name)))"
    using subscription_after_success by blast
  have "ensureServiceMeshOperatorSubscription configEqual name t1
          = (Return (True, Some cur2, None), called (GetCall name) None t1)"
    using subscription_noop h c by blast
  moreover have "issued t1 (called (GetCall name) None t1) = [(GetCall name, None)]"
    "objs (called (GetCall name) None t1) = objs t1"
    by (simp_all add: called_def issued_def)
  moreover have "fst (subscriptionChanged configEqual cur2 (fst (desiredSubscription name))) = False"
    using c by (simp add: subscriptionChanged_def)
  ultimately show "\<exists>cur2 t2.
          ensureServiceMeshOperatorSubscription configEqual name t1
            = (Return (True, Some cur2, None), t2) \<and>
          fst (subscriptionChanged configEqual cur2 (fst (desiredSubscription name))) = False \<and>
          issued t1 t2 = [(GetCall name, None)] \<and> objs t2 = objs t1"
    by blast
next
  assume h: "ensureDefaultIngressController DetermineReplicas defaultName infraConfig
      ingressConfig o1 = (None, o2) \<and>
    fault (ingressControllers o2) = None"
  then obtain ic where c: "namespace o2 = namespace o1"
    "map_of (objs (ingressControllers o2)) (namespace o2, defaultName) = Some ic"
    using ingresscontroller_after_success by fastforce
  let ?o3 = "o2\<lparr>ingressControllers :=
                called (GetCall (namespace o2, defaultName)) None (ingressControllers o2)\<rparr>"
  have "ensureDefaultIngressController DetermineReplicas defaultName infraConfig' ingressConfig' o2
          = (None, ?o3)"
    using ingresscontroller_noop h c by blast
  moreover have "issued (ingressControllers o2) (ingressControllers ?o3)
            = [(GetCall (namespace o1, defaultName), None)]"
    "objs (ingressControllers ?o3) = objs (ingressControllers o2)"
    using c by (simp_all add: called_def issued_def)
  ultimately show "\<exists>o3.
          ensureDefaultIngressController DetermineReplicas defaultName infraConfig' ingressConfig' o2
            = (None, o3) \<and>
          issued (ingressControllers o2) (ingressControllers o3)
            = [(GetCall (namespace o1, defaultName), None)] \<and>
          objs (ingressControllers o3) = objs (ingressControllers o2)"
    by blast
qed


theorem ensure_twice_is_noop_witness:
  "(\<exists>cur2 s2.
      ensureTrustedCAConfigMap exName
        (snd (ensureTrustedCAConfigMap exName (configMapStore noFaults)))
        = (Return (True, Some cur2, None), s2) \<and>
      issued (snd (ensureTrustedCAConfigMap exName (configMapStore noFaults))) s2
        = [(GetCall exName, None)]) \<and>
   (\<exists>cur2 t2.
      ensureServiceMeshOperatorSubscription exConfigEqual exName
        (snd (ensureServiceMeshOperatorSubscription exConfigEqual exName
                (subscriptionStore noFaults)))
        = (Return (True, Some cur2, None), t2) \<and>
      issued (snd (ensureServiceMeshOperatorSubscription exConfigEqual exName
                     (subscriptionStore noFaults))) t2
        = [(GetCall exName, None)]) \<and>
   (\<exists>o3.
      ensureDefaultIngressController exDetermineReplicas ''default''
        (exInfrastructure None) (exIngress [] [])
        (snd (ensureDefaultIngressController exDetermineReplicas ''default''
                (exInfrastructure None) (exIngress [] []) (exOperator None [] [])))
        = (None, o3) \<and>
      objs (ingressControllers o3)
        = objs (ingressControllers
                  (snd (ensureDefaultIngressController exDetermineReplicas ''default''
                          (exInfrastructure None) (exIngress [] []) (exOperator None [] [])))))"
proof -
  let ?s = "configMapStore noFaults"
  have "\<exists>c s1. ensureTrustedCAConfigMap exName ?s = (Return (True, Some c, None), s1) \<and>
          issued ?s s1 = [(GetCall exName, None),
                          (UpdateCall (updatedConfigMap exConfigMap), None),
                          (GetCall exName, None)] \<and>
          faults s1 = noFaults"
    by (simp add: ensureTrustedCAConfigMap_def ensureTrustedCAConfigMapWith_def
        desiredTrustedCAConfigMap_def currentTrustedCAConfigMap_def updateTrustedCAConfigMap_def
        labelIsSet_def updatedConfigMap_def issued_def store_defs error_defs example_defs)
  then obtain c s1 where a1: "ensureTrustedCAConfigMap exName ?s = (Return (True, Some c, None), s1)"
    and a2: "issued ?s s1 = [(GetCall exName, None),
                             (UpdateCall (updatedConfigMap exConfigMap), None),
                             (GetCall exName, None)]"
    and a3: "faults s1 = noFaults"
    by blast
  have a4: "wellKeyed ?s"
    by (simp add: wellKeyed_def objKey_def example_defs)
  have a5: "list_all (\<lambda>x. \<not> alreadyExistsOnUpdate x) (issued ?s s1)"
    unfolding a2 by (simp add: alreadyExistsOnUpdate_def)
  have a6: "fault s1 = None"
    using a3 by (simp add: fault_def noFaults_def)
  let ?t = "subscriptionStore noFaults"
  have "\<exists>c t1. ensureServiceMeshOperatorSubscription exConfigEqual exName ?t
                  = (Return (True, Some c, None), t1) \<and> faults t1 = noFaults"
    by (simp add: ensureServiceMeshOperatorSubscription_def desiredSubscription_def
        currentSubscription_def updateSubscription_def subscriptionChanged_def specEqual_def
        store_defs error_defs example_defs)
  then obtain c' t1 where b1: "ensureServiceMeshOperatorSubscription exConfigEqual exName ?t
                  = (Return (True, Some c', None), t1)"
    and b3: "faults t1 = noFaults"
    by blast
  have b4: "wellKeyed ?t"
    by (simp add: wellKeyed_def objKey_def example_defs)
  have b6: "fault t1 = None"
    using b3 by (simp add: fault_def noFaults_def)
  let ?o = "exOperator None [] []"
  have "\<exists>o2. ensureDefaultIngressController exDetermineReplicas ''default''
                (exInfrastructure None) (exIngress [] []) ?o = (None, o2) \<and>
              faults (ingressControllers o2) = noFaults"
    by (simp add: ensureDefaultIngressController_def Let_def store_defs error_defs example_defs)
  then obtain o2 where c1: "ensureDefaultIngressController exDetermineReplicas ''default''
                (exInfrastructure None) (exIngress [] []) ?o = (None, o2)"
    and c3: "faults (ingressControllers o2) = noFaults"
    by blast
  have c6: "fault (ingressControllers o2) = None"
    using c3 by (simp add: fault_def noFaults_def)
  show ?thesis
    using ensure_twice_is_noop
      [where s = ?s and name = exName and had = True and cur = "Some c" and ?s1.0 = s1
         and t = ?t and configEqual = exConfigEqual and had' = True and cur' = "Some c'"
         and ?t1.0 = t1
         and DetermineReplicas = exDetermineReplicas and defaultName = "''default''"
         and infraConfig = "exInfrastructure None" and ingressConfig = "exIngress [] []"
         and ?o1.0 = ?o and ?o2.0 = o2
         and infraConfig' = "exInfrastructure None" and ingressConfig' = "exIngress [] []"]
      a1 a4 a5 a6 b1 b4 b6 c1 c6
    by auto
qed

section \<open>A default placement that is already set\<close>

text \<open>
  C5. When the ingress config already has a default placement,
  handleSingleNode4Dot11Upgrade writes nothing, whatever the infrastructure config and
  the nodes are: once both cluster configs are fetched it returns nil after these two
  gets, and lists no nodes; and when a get fails it returns that error. In every case no
  write is issued and every store keeps its objects.
\<close>

theorem placement_already_set_no_write:
  "(clientGet infraName (infrastructures o1) = (Inr infraConfig, sf) \<and>
    clientGet ingressName (ingressConfigs o1) = (Inr ingressConfig, sg) \<and>
    DefaultPlacement (IngressStatus ingressConfig) \<noteq> []
    \<longrightarrow> handleSingleNode4Dot11Upgrade infraName ingressName o1
          = (Return None, o1\<lparr>infrastructures := sf, ingressConfigs := sg\<rparr>) \<and>
        issued (infrastructures o1) sf = [(GetCall infraName, None)] \<and>
        issued (ingressConfigs o1) sg = [(GetCall ingressName, None)] \<and>
        objs sf = objs (infrastructures o1) \<and>
        objs sg = objs (ingressConfigs o1)) \<and>
   (map_of (objs (ingressConfigs o1)) ingressName = Some stored \<and>
    DefaultPlacement (IngressStatus stored) \<noteq> [] \<and>
    handleSingleNode4Dot11Upgrade infraName ingressName o1 = (out, o2)
    \<longrightarrow> out \<noteq> Panic \<and>
        filter (\<lambda>x. isWrite (fst x)) (issued (ingressConfigs o1) (ingressConfigs o2)) = [] \<and>
        filter (\<lambda>x. isWrite (fst x)) (issued (infrastructures o1) (infrastructures o2)) = [] \<and>
        objs (ingressConfigs o2) = objs (ingressConfigs o1) \<and>
        objs (infrastructures o2) = objs (infrastructures o1) \<and>
        nodes o2 = nodes o1 \<and> ingressControllers o2 = ingressControllers o1)"
proof (intro conjI impI)
  assume h: "clientGet infraName (infrastructures o1) = (Inr infraConfig, sf) \<and>
    clientGet ingressName (ingressConfigs o1) = (Inr ingressConfig, sg) \<and>
    DefaultPlacement (IngressStatus ingressConfig) \<noteq> []"
  then show "handleSingleNode4Dot11Upgrade infraName ingressName o1
           = (Return None, o1\<lparr>infrastructures := sf, ingressConfigs := sg\<rparr>)"
    by (simp add: handleSingleNode4Dot11Upgrade_def)
  show "issued (infrastructures o1) sf = [(GetCall infraName, None)]"
    "objs sf = objs (infrastructures o1)"
    using clientGet_log [of infraName "infrastructures o1" "Inr infraConfig" sf] h by simp_all
  show "issued (ingressConfigs o1) sg = [(GetCall ingressName, None)]"
    "objs sg = objs (ingressConfigs o1)"
    using clientGet_log [of ingressName "ingressConfigs o1" "Inr ingressConfig" sg] h by simp_all
next
  assume h: "map_of (objs (ingressConfigs o1)) ingressName = Some stored \<and>
    DefaultPlacement (IngressStatus stored) \<noteq> [] \<and>
    handleSingleNode4Dot11Upgrade infraName ingressName o1 = (out, o2)"
  obtain rf sf where f: "clientGet infraName (infrastructures o1) = (rf, sf)"
    by (cases "clientGet infraName (infrastructures o1)")
  obtain rg sg where g: "clientGet ingressName (ingressConfigs o1) = (rg, sg)"
    by (cases "clientGet ingressName (ingressConfigs o1)")
  have lf: "objs sf = objs (infrastructures o1)"
    "filter (\<lambda>x. isWrite (fst x)) (issued (infrastructures o1) sf) = []"
    using clientGet_log [OF f] by (simp_all add: isWrite_def)
  have lg: "objs sg = objs (ingressConfigs o1)"
    "filter (\<lambda>x. isWrite (fst x)) (issued (ingressConfigs o1) sg) = []"
    using clientGet_log [OF g] by (simp_all add: isWrite_def)
  have set: "DefaultPlacement (IngressStatus ing) \<noteq> []" if "rg = Inr ing" for ing
    using clientGet_found [of ingressName "ingressConfigs o1" ing sg] g that h by simp
  have o2: "out \<noteq> Panic \<and>
      (o2 = o1\<lparr>infrastructures := sf\<rparr> \<or> o2 = o1\<lparr>infrastructures := sf, ingressConfigs := sg\<rparr>)"
    using h f g set
    by (auto simp: handleSingleNode4Dot11Upgrade_def split: sum.splits)
  then show "out \<noteq> Panic"
    by simp
  from o2 show "filter (\<lambda>x. isWrite (fst x)) (issued (ingressConfigs o1) (ingressConfigs o2)) = []"
    using lg by (auto simp: issued_def)
  from o2 show "filter (\<lambda>x. isWrite (fst x)) (issued (infrastructures o1) (infrastructures o2)) = []"
    using lf by auto
  from o2 show "objs (ingressConfigs o2) = objs (ingressConfigs o1)"
    using lg by auto
  from o2 show "objs (infrastructures o2) = objs (infrastructures o1)"
    using lf by auto
  from o2 show "nodes o2 = nodes o1"
    by auto
  from o2 show "ingressControllers o2 = ingressControllers o1"
    by auto
qed

theorem placement_already_set_no_write_witness:
  "handleSingleNode4Dot11Upgrade clusterName clusterName
     (exOperator (Some \<lparr>PlatformType = ''None''\<rparr>) [] ''Workers'')
   = (Return None,
      (exOperator (Some \<lparr>PlatformType = ''None''\<rparr>) [] ''Workers'')
        \<lparr>infrastructures :=
           (infrastructures (exOperator (Some \<lparr>PlatformType = ''None''\<rparr>) [] ''Workers''))
             \<lparr>calls := [(GetCall clusterName, None)]\<rparr>,
         ingressConfigs :=
           (ingressConfigs (exOperator (Some \<lparr>PlatformType = ''None''\<rparr>) [] ''Workers''))
             \<lparr>calls := [(GetCall clusterName, None)]\<rparr>\<rparr>) \<and>
   objs (ingressConfigs (snd (handleSingleNode4Dot11Upgrade clusterName clusterName
     ((exOperator None [] ''Workers'')\<lparr>infrastructures := emptyStore\<rparr>))))
   = [(clusterName, exIngress [] ''Workers'')]"
proof -
  let ?o = "exOperator (Some \<lparr>PlatformType = ''None''\<rparr>) [] ''Workers''"
  have g: "clientGet clusterName (infrastructures ?o)
             = (Inr (exInfrastructure (Some \<lparr>PlatformType = ''None''\<rparr>)),
                (infrastructures ?o)\<lparr>calls := [(GetCall clusterName, None)]\<rparr>)"
    by (simp add: store_defs example_defs)
  have h: "clientGet clusterName (ingressConfigs ?o)
             = (Inr (exIngress [] ''Workers''),
                (ingressConfigs ?o)\<lparr>calls := [(GetCall clusterName, None)]\<rparr>)"
    by (simp add: store_defs example_defs)
  have p: "DefaultPlacement (IngressStatus (exIngress [] ''Workers'')) \<noteq> []"
    by (simp add: exIngress_def)
  have a: "handleSingleNode4Dot11Upgrade clusterName clusterName ?o
   = (Return None,
      ?o\<lparr>infrastructures := (infrastructures ?o)\<lparr>calls := [(GetCall clusterName, None)]\<rparr>,
         ingressConfigs := (ingressConfigs ?o)\<lparr>calls := [(GetCall clusterName, None)]\<rparr>\<rparr>)"
    using placement_already_set_no_write
      [where infraName = clusterName and ingressName = clusterName and ?o1.0 = ?o
         and infraConfig = "exInfrastructure (Some \<lparr>PlatformType = ''None''\<rparr>)"
         and ingressConfig = "exIngress [] ''Workers''"
         and sf = "(infrastructures ?o)\<lparr>calls := [(GetCall clusterName, None)]\<rparr>"
         and sg = "(ingressConfigs ?o)\<lparr>calls := [(GetCall clusterName, None)]\<rparr>"]
      g h p by simp
  let ?q = "(exOperator None [] ''Workers'')\<lparr>infrastructures := emptyStore\<rparr>"
  obtain out o2 where r: "handleSingleNode4Dot11Upgrade clusterName clusterName ?q = (out, o2)"
    by (cases "handleSingleNode4Dot11Upgrade clusterName clusterName ?q")
  have m: "map_of (objs (ingressConfigs ?q)) clusterName = Some (exIngress [] ''Workers'')"
    "objs (ingressConfigs ?q) = [(clusterName, exIngress [] ''Workers'')]"
    by (simp_all add: example_defs)
  have b: "objs (ingressConfigs o2) = [(clusterName, exIngress [] ''Workers'')]"
    using placement_already_set_no_write
      [where infraName = clusterName and ingressName = clusterName and ?o1.0 = ?q
         and stored = "exIngress [] ''Workers''" and out = out and ?o2.0 = o2]
      r m p by simp
  show ?thesis
    using a b r by simp
qed

section \<open>The placement that the topology gate writes\<close>

lemma patchDefaultPlacement_calls:
  assumes "clientGet name s = (Inr fetched, s1)"
    and "patchDefaultPlacement name p s = (a, s')"
  shows "calls s' = calls s @
           [(GetCall name, None),
            (StatusPatchCall
               (fetched\<lparr>IngressStatus := (IngressStatus fetched)\<lparr>DefaultPlacement := p\<rparr>\<rparr>), a)]"
proof -
  have "calls s1 = calls s @ [(GetCall name, None)]"
    using clientGet_log [OF assms(1)] by simp
  moreover have "calls s' = calls s1 @
      [(StatusPatchCall
          (fetched\<lparr>IngressStatus := (IngressStatus fetched)\<lparr>DefaultPlacement := p\<rparr>\<rparr>), a)]"
    using assms by (auto simp: patchDefaultPlacement_def dest: clientStatusPatch_log)
  ultimately show ?thesis by simp
qed

lemma RetryOnConflict_first_patch:
  assumes g: "clientGet name s = (Inr fetched, s1)"
    and r: "RetryOnConflict (Suc n) (patchDefaultPlacement name p) s = (e, s')"
  shows "\<exists>a rest.
           calls s' = calls s @
             [(GetCall name, None),
              (StatusPatchCall
                 (fetched\<lparr>IngressStatus := (IngressStatus fetched)\<lparr>DefaultPlacement := p\<rparr>\<rparr>), a)]
             @ rest \<and>
           list_all (setsPlacement p) rest \<and>
           (a = None \<longrightarrow> rest = [] \<and> e = None)"
proof -
  obtain a s2 where f: "patchDefaultPlacement name p s = (a, s2)"
    by (cases "patchDefaultPlacement name p s")
  note c = patchDefaultPlacement_calls [OF g f]
  show ?thesis
  proof (cases "\<exists>err. a = Some err \<and> IsConflict err \<and> n \<noteq> 0")
    case True
    then have "RetryOnConflict n (patchDefaultPlacement name p) s2 = (e, s')"
      using r f by auto
    then obtain rest where "calls s' = calls s2 @ rest" "list_all (setsPlacement p) rest"
      using RetryOnConflict_log by blast
    then show ?thesis
      using c True by auto
  next
    case False
    then have "s' = s2" "e = a"
      using r f by (auto split: option.splits if_splits)
    then show ?thesis
      using c by simp
  qed
qed

lemma handleSingleNode_issues_patch:
  assumes g1: "clientGet infraName (infrastructures o1) = (Inr infraConfig, sf)"
    and g2: "clientGet ingressName (ingressConfigs o1) = (Inr ingressConfig, sg)"
    and un: "DefaultPlacement (IngressStatus ingressConfig) = []"
    and l: "clientList (nodes o1) = (Inr items, sn)"
    and sel: "selectDefaultPlacement items infraConfig = Return p"
    and g3: "clientGet ingressName sg = (Inr fetched, sg1)"
    and r: "handleSingleNode4Dot11Upgrade infraName ingressName o1 = (out, o2)"
  shows "\<exists>a rest.
           issued (ingressConfigs o1) (ingressConfigs o2) =
             [(GetCall ingressName, None), (GetCall ingressName, None),
              (StatusPatchCall
                 (fetched\<lparr>IngressStatus := (IngressStatus fetched)\<lparr>DefaultPlacement := p\<rparr>\<rparr>), a)]
             @ rest \<and>
           list_all (setsPlacement p) rest \<and>
           (a = None \<longrightarrow> rest = [] \<and> out = Return None)"
proof -
  obtain e sp where rt: "RetryOnConflict DefaultBackoffSteps
      (patchDefaultPlacement ingressName p) sg = (e, sp)"
    by (cases "RetryOnConflict DefaultBackoffSteps (patchDefaultPlacement ingressName p) sg")
  have o2: "ingressConfigs o2 = sp" "e = None \<longrightarrow> out = Return None"
    using r g1 g2 un l sel rt
    by (auto simp: handleSingleNode4Dot11Upgrade_def split: option.splits)
  have "RetryOnConflict (Suc 3) (patchDefaultPlacement ingressName p) sg = (e, sp)"
    using rt by (simp add: DefaultBackoffSteps_def numeral_eq_Suc)
  from RetryOnConflict_first_patch [OF g3 this]
  obtain a rest where c: "calls sp = calls sg @
             [(GetCall ingressName, None),
              (StatusPatchCall
                 (fetched\<lparr>IngressStatus := (IngressStatus fetched)\<lparr>DefaultPlacement := p\<rparr>\<rparr>), a)]
             @ rest"
    "list_all (setsPlacement p) rest" "a = None \<longrightarrow> rest = [] \<and> e = None"
    by blast
  have "calls sg = calls (ingressConfigs o1) @ [(GetCall ingressName, None)]"
    using clientGet_log [OF g2] by simp
  then have "issued (ingressConfigs o1) (ingressConfigs o2) =
             [(GetCall ingressName, None), (GetCall ingressName, None),
              (StatusPatchCall
                 (fetched\<lparr>IngressStatus := (IngressStatus fetched)\<lparr>DefaultPlacement := p\<rparr>\<rparr>), a)]
             @ rest"
    using c o2 by simp
  then show ?thesis
    using c o2 by blast
qed

lemma selectDefaultPlacement_total:
  assumes "PlatformStatus (InfrastructureStatus infraConfig) \<noteq> None \<or>
           \<not> singleNodeSingleReplica items infraConfig"
  shows "selectDefaultPlacement items infraConfig =
           Return (if singleNodeNonePlatform items infraConfig
                   then DefaultPlacementControlPlane else DefaultPlacementWorkers)"
  using assms
  by (auto simp: selectDefaultPlacement_def singleNodeNonePlatform_def
      singleNodeSingleReplica_def split: option.splits)

lemma handleSingleNode_stores_selection:
  assumes fi: "fault (infrastructures o1) = None"
    and mi: "map_of (objs (infrastructures o1)) infraName = Some infraConfig"
    and wk: "wellKeyed (ingressConfigs o1)"
    and mg: "map_of (objs (ingressConfigs o1)) ingressName = Some ingressConfig"
    and un: "DefaultPlacement (IngressStatus ingressConfig) = []"
    and f0: "faults (ingressConfigs o1) (length (calls (ingressConfigs o1))) = None"
    and f1: "faults (ingressConfigs o1) (length (calls (ingressConfigs o1)) + 1) = None"
    and f2: "faults (ingressConfigs o1) (length (calls (ingressConfigs o1)) + 2) = None"
    and fn: "fault (nodes o1) = None"
    and np: "PlatformStatus (InfrastructureStatus infraConfig) \<noteq> None \<or>
             \<not> singleNodeSingleReplica (map snd (objs (nodes o1))) infraConfig"
    and p: "p = (if singleNodeNonePlatform (map snd (objs (nodes o1))) infraConfig
                 then DefaultPlacementControlPlane else DefaultPlacementWorkers)"
  shows "\<exists>o2 stored.
           handleSingleNode4Dot11Upgrade infraName ingressName o1 = (Return None, o2) \<and>
           issued (ingressConfigs o1) (ingressConfigs o2) =
             [(GetCall ingressName, None), (GetCall ingressName, None),
              (StatusPatchCall
                 (ingressConfig\<lparr>IngressStatus :=
                    (IngressStatus ingressConfig)\<lparr>DefaultPlacement := p\<rparr>\<rparr>), None)] \<and>
           map_of (objs (ingressConfigs o2)) ingressName = Some stored \<and>
           DefaultPlacement (IngressStatus stored) = p"
proof -
  let ?s = "ingressConfigs o1"
  let ?items = "map snd (objs (nodes o1))"
  let ?obj = "ingressConfig\<lparr>IngressStatus :=
                (IngressStatus ingressConfig)\<lparr>DefaultPlacement := p\<rparr>\<rparr>"
  let ?f = "\<lambda>stored. if DefaultPlacement (IngressStatus ingressConfig) = p then stored
             else stored\<lparr>IngressStatus := (IngressStatus stored)\<lparr>DefaultPlacement := p\<rparr>\<rparr>"
  let ?sg = "called (GetCall ingressName) None ?s"
  let ?sg1 = "called (GetCall ingressName) None ?sg"
  let ?new = "(?f ingressConfig)\<lparr>ResourceVersion := Suc (ResourceVersion ingressConfig)\<rparr>"
  let ?sp = "called (StatusPatchCall ?obj) None
               (?sg1\<lparr>objs := AList.update ingressName ?new (objs ?sg1)\<rparr>)"
  have g1: "clientGet infraName (infrastructures o1)
              = (Inr infraConfig, called (GetCall infraName) None (infrastructures o1))"
    using clientGet_quiet [OF fi mi] .
  have g2: "clientGet ingressName ?s = (Inr ingressConfig, ?sg)"
    using clientGet_quiet [of ?s ingressName ingressConfig] f0 mg by (simp add: fault_def)
  have l: "clientList (nodes o1) = (Inr ?items, called ListCall None (nodes o1))"
    using fn by (simp add: clientList_def)
  have sel: "selectDefaultPlacement ?items infraConfig = Return p"
    using selectDefaultPlacement_total [OF np] p by simp
  have g3: "clientGet ingressName ?sg = (Inr ingressConfig, ?sg1)"
    using clientGet_quiet [of ?sg ingressName ingressConfig] f1 mg
    by (simp add: fault_def called_def)
  have k: "objKey ?obj = ingressName"
    using wellKeyed_key [OF wk mg] by (simp add: objKey_def)
  have pt: "clientStatusPatch ?obj ?f ?sg1 = (None, ?sp)"
    using f2 mg k by (simp add: clientStatusPatch_def fault_def called_def)
  have pd: "patchDefaultPlacement ingressName p ?sg = (None, ?sp)"
    using g3 pt by (simp add: patchDefaultPlacement_def)
  have rt: "RetryOnConflict DefaultBackoffSteps (patchDefaultPlacement ingressName p) ?sg
              = (None, ?sp)"
    using pd by (simp add: DefaultBackoffSteps_def numeral_eq_Suc)
  have res: "handleSingleNode4Dot11Upgrade infraName ingressName o1
      = (Return None,
         o1\<lparr>infrastructures := called (GetCall infraName) None (infrastructures o1),
            ingressConfigs := ?sp, nodes := called ListCall None (nodes o1)\<rparr>)"
    using g1 g2 un l sel rt by (simp add: handleSingleNode4Dot11Upgrade_def)
  have iss: "issued ?s ?sp =
      [(GetCall ingressName, None), (GetCall ingressName, None), (StatusPatchCall ?obj, None)]"
    by (simp add: issued_def called_def)
  have st: "map_of (objs ?sp) ingressName = Some ?new"
    by (simp add: called_def update_conv')
  have dp: "DefaultPlacement (IngressStatus ?new) = p"
    using un by simp
  show ?thesis
    using res iss st dp by simp
qed


text \<open>
  C4. Unless the three topology conditions hold while PlatformStatus is nil (the case of
  C10), handleSingleNode4Dot11Upgrade selects DefaultPlacementControlPlane when all four
  conditions hold (one node, both topologies SingleReplica, platform type None) and
  DefaultPlacementWorkers for every other combination, and the two outcomes differ. This
  holds of the condition at lines 368-373 and of the function as a whole. Every call that
  the function issues on the ingress configs is a get or a status patch carrying the
  selected outcome. Once both configs are fetched with the placement unset, the nodes
  are listed and the closure has fetched the ingress config again, the next call is a
  status patch of the fetched object with the selected outcome as its default placement.
  When the store answers these calls from its contents, the function returns nil and the
  stored ingress config has the selected outcome as its default placement: ControlPlane
  exactly when the four conditions hold, Workers otherwise.
\<close>

theorem placement_selection:
  "(PlatformStatus (InfrastructureStatus infraConfig) \<noteq> None \<or>
    \<not> singleNodeSingleReplica items infraConfig
    \<longrightarrow> selectDefaultPlacement items infraConfig =
          Return (if length items = 1 \<and>
                     ControlPlaneTopology (InfrastructureStatus infraConfig)
                       = SingleReplicaTopologyMode \<and>
                     InfrastructureTopology (InfrastructureStatus infraConfig)
                       = SingleReplicaTopologyMode \<and>
                     (\<exists>ps. PlatformStatus (InfrastructureStatus infraConfig) = Some ps \<and>
                           PlatformType ps = NonePlatformType)
                  then DefaultPlacementControlPlane else DefaultPlacementWorkers)) \<and>
   DefaultPlacementControlPlane \<noteq> DefaultPlacementWorkers \<and>
   (handleSingleNode4Dot11Upgrade infraName ingressName o1 = (out, o2) \<and>
    clientGet infraName (infrastructures o1) = (Inr infraConfig, sf) \<and>
    clientList (nodes o1) = (Inr items, sn)
    \<longrightarrow> list_all
          (setsPlacement (if singleNodeNonePlatform items infraConfig
                          then DefaultPlacementControlPlane else DefaultPlacementWorkers))
          (issued (ingressConfigs o1) (ingressConfigs o2))) \<and>
   (handleSingleNode4Dot11Upgrade infraName ingressName o1 = (out, o2) \<and>
    clientGet infraName (infrastructures o1) = (Inr infraConfig, sf) \<and>
    clientGet ingressName (ingressConfigs o1) = (Inr ingressConfig, sg) \<and>
    DefaultPlacement (IngressStatus ingressConfig) = [] \<and>
    clientList (nodes o1) = (Inr items, sn) \<and>
    (PlatformStatus (InfrastructureStatus infraConfig) \<noteq> None \<or>
     \<not> singleNodeSingleReplica items infraConfig) \<and>
    clientGet ingressName sg = (Inr fetched, sg1)
    \<longrightarrow> (\<exists>a rest.
          issued (ingressConfigs o1) (ingressConfigs o2) =
            [(GetCall ingressName, None), (GetCall ingressName, None),
             (StatusPatchCall
                (fetched\<lparr>IngressStatus := (IngressStatus fetched)
                   \<lparr>DefaultPlacement :=
                      (if length items = 1 \<and>
                          ControlPlaneTopology (InfrastructureStatus infraConfig)
                            = SingleReplicaTopologyMode \<and>
                          InfrastructureTopology (InfrastructureStatus infraConfig)
                            = SingleReplicaTopologyMode \<and>
                          (\<exists>ps. PlatformStatus (InfrastructureStatus infraConfig) = Some ps \<and>
                                PlatformType ps = NonePlatformType)
                       then DefaultPlacementControlPlane else DefaultPlacementWorkers)\<rparr>\<rparr>), a)]
            @ rest \<and>
          (a = None \<longrightarrow> rest = [] \<and> out = Return None))) \<and>
   (fault (infrastructures o1) = None \<and>
    map_of (objs (infrastructures o1)) infraName = Some infraConfig \<and>
    wellKeyed (ingressConfigs o1) \<and>
    map_of (objs (ingressConfigs o1)) ingressName = Some ingressConfig \<and>
    DefaultPlacement (IngressStatus ingressConfig) = [] \<and>
    faults (ingressConfigs o1) (length (calls (ingressConfigs o1))) = None \<and>
    faults (ingressConfigs o1) (length (calls (ingressConfigs o1)) + 1) = None \<and>
    faults (ingressConfigs o1) (length (calls (ingressConfigs o1)) + 2) = None \<and>
    fault (nodes o1) = None \<and>
    items = map snd (objs (nodes o1)) \<and>
    (PlatformStatus (InfrastructureStatus infraConfig) \<noteq> None \<or>
     \<not> singleNodeSingleReplica items infraConfig)
    \<longrightarrow> (\<exists>o3 stored.
          handleSingleNode4Dot11Upgrade infraName ingressName o1 = (Return None, o3) \<and>
          filter (\<lambda>x. isWrite (fst x)) (issued (ingressConfigs o1) (ingressConfigs o3)) =
            [(StatusPatchCall
                (ingressConfig\<lparr>IngressStatus := (IngressStatus ingressConfig)
                   \<lparr>DefaultPlacement := DefaultPlacement (IngressStatus stored)\<rparr>\<rparr>), None)] \<and>
          map_of (objs (ingressConfigs o3)) ingressName = Some stored \<and>
          DefaultPlacement (IngressStatus stored) =
            (if length items = 1 \<and>
                ControlPlaneTopology (InfrastructureStatus infraConfig)
                  = SingleReplicaTopologyMode \<and>
                InfrastructureTopology (InfrastructureStatus infraConfig)
                  = SingleReplicaTopologyMode \<and>
                (\<exists>ps. PlatformStatus (InfrastructureStatus infraConfig) = Some ps \<and>
                      PlatformType ps = NonePlatformType)
             then DefaultPlacementControlPlane else DefaultPlacementWorkers)))"
proof -
  have four: "singleNodeNonePlatform xs infra =
      (length xs = 1 \<and>
       ControlPlaneTopology (InfrastructureStatus infra) = SingleReplicaTopologyMode \<and>
       InfrastructureTopology (InfrastructureStatus infra) = SingleReplicaTopologyMode \<and>
       (\<exists>ps. PlatformStatus (InfrastructureStatus infra) = Some ps \<and>
             PlatformType ps = NonePlatformType))" for xs infra
    by (auto simp: singleNodeNonePlatform_def singleNodeSingleReplica_def split: option.splits)
  have c1: "PlatformStatus (InfrastructureStatus infraConfig) \<noteq> None \<or>
    \<not> singleNodeSingleReplica items infraConfig
    \<longrightarrow> selectDefaultPlacement items infraConfig =
          Return (if singleNodeNonePlatform items infraConfig
                  then DefaultPlacementControlPlane else DefaultPlacementWorkers)"
    using selectDefaultPlacement_total by blast
  have c2: "DefaultPlacementControlPlane \<noteq> DefaultPlacementWorkers"
    by (simp add: DefaultPlacementControlPlane_def DefaultPlacementWorkers_def)
  have c3: "handleSingleNode4Dot11Upgrade infraName ingressName o1 = (out, o2) \<and>
    clientGet infraName (infrastructures o1) = (Inr infraConfig, sf) \<and>
    clientList (nodes o1) = (Inr items, sn)
    \<longrightarrow> list_all
          (setsPlacement (if singleNodeNonePlatform items infraConfig
                          then DefaultPlacementControlPlane else DefaultPlacementWorkers))
          (issued (ingressConfigs o1) (ingressConfigs o2))"
    using handleSingleNode_patches by blast
  have c4: "handleSingleNode4Dot11Upgrade infraName ingressName o1 = (out, o2) \<and>
    clientGet infraName (infrastructures o1) = (Inr infraConfig, sf) \<and>
    clientGet ingressName (ingressConfigs o1) = (Inr ingressConfig, sg) \<and>
    DefaultPlacement (IngressStatus ingressConfig) = [] \<and>
    clientList (nodes o1) = (Inr items, sn) \<and>
    (PlatformStatus (InfrastructureStatus infraConfig) \<noteq> None \<or>
     \<not> singleNodeSingleReplica items infraConfig) \<and>
    clientGet ingressName sg = (Inr fetched, sg1)
    \<longrightarrow> (\<exists>a rest.
          issued (ingressConfigs o1) (ingressConfigs o2) =
            [(GetCall ingressName, None), (GetCall ingressName, None),
             (StatusPatchCall
                (fetched\<lparr>IngressStatus := (IngressStatus fetched)
                   \<lparr>DefaultPlacement :=
                      (if singleNodeNonePlatform items infraConfig
                       then DefaultPlacementControlPlane else DefaultPlacementWorkers)\<rparr>\<rparr>), a)]
            @ rest \<and>
          (a = None \<longrightarrow> rest = [] \<and> out = Return None))"
  proof
    assume h: "handleSingleNode4Dot11Upgrade infraName ingressName o1 = (out, o2) \<and>
      clientGet infraName (infrastructures o1) = (Inr infraConfig, sf) \<and>
      clientGet ingressName (ingressConfigs o1) = (Inr ingressConfig, sg) \<and>
      DefaultPlacement (IngressStatus ingressConfig) = [] \<and>
      clientList (nodes o1) = (Inr items, sn) \<and>
      (PlatformStatus (InfrastructureStatus infraConfig) \<noteq> None \<or>
       \<not> singleNodeSingleReplica items infraConfig) \<and>
      clientGet ingressName sg = (Inr fetched, sg1)"
    let ?p = "if singleNodeNonePlatform items infraConfig
              then DefaultPlacementControlPlane else DefaultPlacementWorkers"
    have sel: "selectDefaultPlacement items infraConfig = Return ?p"
      using h selectDefaultPlacement_total by blast
    show "\<exists>a rest.
          issued (ingressConfigs o1) (ingressConfigs o2) =
            [(GetCall ingressName, None), (GetCall ingressName, None),
             (StatusPatchCall
                (fetched\<lparr>IngressStatus := (IngressStatus fetched)
                   \<lparr>DefaultPlacement := ?p\<rparr>\<rparr>), a)]
            @ rest \<and>
          (a = None \<longrightarrow> rest = [] \<and> out = Return None)"
      using handleSingleNode_issues_patch
        [of infraName o1 infraConfig sf ingressName ingressConfig sg items sn ?p fetched sg1
           out o2] h sel
      by blast
  qed
  have c5: "fault (infrastructures o1) = None \<and>
    map_of (objs (infrastructures o1)) infraName = Some infraConfig \<and>
    wellKeyed (ingressConfigs o1) \<and>
    map_of (objs (ingressConfigs o1)) ingressName = Some ingressConfig \<and>
    DefaultPlacement (IngressStatus ingressConfig) = [] \<and>
    faults (ingressConfigs o1) (length (calls (ingressConfigs o1))) = None \<and>
    faults (ingressConfigs o1) (length (calls (ingressConfigs o1)) + 1) = None \<and>
    faults (ingressConfigs o1) (length (calls (ingressConfigs o1)) + 2) = None \<and>
    fault (nodes o1) = None \<and>
    items = map snd (objs (nodes o1)) \<and>
    (PlatformStatus (InfrastructureStatus infraConfig) \<noteq> None \<or>
     \<not> singleNodeSingleReplica items infraConfig)
    \<longrightarrow> (\<exists>o3 stored.
          handleSingleNode4Dot11Upgrade infraName ingressName o1 = (Return None, o3) \<and>
          filter (\<lambda>x. isWrite (fst x)) (issued (ingressConfigs o1) (ingressConfigs o3)) =
            [(StatusPatchCall
                (ingressConfig\<lparr>IngressStatus := (IngressStatus ingressConfig)
                   \<lparr>DefaultPlacement := DefaultPlacement (IngressStatus stored)\<rparr>\<rparr>), None)] \<and>
          map_of (objs (ingressConfigs o3)) ingressName = Some stored \<and>
          DefaultPlacement (IngressStatus stored) =
            (if singleNodeNonePlatform items infraConfig
             then DefaultPlacementControlPlane else DefaultPlacementWorkers))"
  proof
    assume h: "fault (infrastructures o1) = None \<and>
      map_of (objs (infrastructures o1)) infraName = Some infraConfig \<and>
      wellKeyed (ingressConfigs o1) \<and>
      map_of (objs (ingressConfigs o1)) ingressName = Some ingressConfig \<and>
      DefaultPlacement (IngressStatus ingressConfig) = [] \<and>
      faults (ingressConfigs o1) (length (calls (ingressConfigs o1))) = None \<and>
      faults (ingressConfigs o1) (length (calls (ingressConfigs o1)) + 1) = None \<and>
      faults (ingressConfigs o1) (length (calls (ingressConfigs o1)) + 2) = None \<and>
      fault (nodes o1) = None \<and>
      items = map snd (objs (nodes o1)) \<and>
      (PlatformStatus (InfrastructureStatus infraConfig) \<noteq> None \<or>
       \<not> singleNodeSingleReplica items infraConfig)"
    let ?p = "if singleNodeNonePlatform (map snd (objs (nodes o1))) infraConfig
              then DefaultPlacementControlPlane else DefaultPlacementWorkers"
    from h handleSingleNode_stores_selection
      [of o1 infraName infraConfig ingressName ingressConfig ?p]
    obtain o3 stored where r:
      "handleSingleNode4Dot11Upgrade infraName ingressName o1 = (Return None, o3)"
      "issued (ingressConfigs o1) (ingressConfigs o3) =
         [(GetCall ingressName, None), (GetCall ingressName, None),
          (StatusPatchCall
             (ingressConfig\<lparr>IngressStatus :=
                (IngressStatus ingressConfig)\<lparr>DefaultPlacement := ?p\<rparr>\<rparr>), None)]"
      "map_of (objs (ingressConfigs o3)) ingressName = Some stored"
      "DefaultPlacement (IngressStatus stored) = ?p"
      by auto
    have "filter (\<lambda>x. isWrite (fst x)) (issued (ingressConfigs o1) (ingressConfigs o3)) =
            [(StatusPatchCall
                (ingressConfig\<lparr>IngressStatus := (IngressStatus ingressConfig)
                   \<lparr>DefaultPlacement := DefaultPlacement (IngressStatus stored)\<rparr>\<rparr>), None)]"
      unfolding r(2) r(4) by (simp add: isWrite_def)
    then show "\<exists>o3 stored.
          handleSingleNode4Dot11Upgrade infraName ingressName o1 = (Return None, o3) \<and>
          filter (\<lambda>x. isWrite (fst x)) (issued (ingressConfigs o1) (ingressConfigs o3)) =
            [(StatusPatchCall
                (ingressConfig\<lparr>IngressStatus := (IngressStatus ingressConfig)
                   \<lparr>DefaultPlacement := DefaultPlacement (IngressStatus stored)\<rparr>\<rparr>), None)] \<and>
          map_of (objs (ingressConfigs o3)) ingressName = Some stored \<and>
          DefaultPlacement (IngressStatus stored) =
            (if singleNodeNonePlatform items infraConfig
             then DefaultPlacementControlPlane else DefaultPlacementWorkers)"
      using r h by blast
  qed
  show ?thesis
    using c1 c2 c3 c4 c5 unfolding four by blast
qed


theorem placement_selection_witness:
  "selectDefaultPlacement [exNode] (exInfrastructure (Some \<lparr>PlatformType = ''None''\<rparr>))
     = Return ''ControlPlane'' \<and>
   selectDefaultPlacement [exNode] (exInfrastructure (Some \<lparr>PlatformType = ''AWS''\<rparr>))
     = Return ''Workers'' \<and>
   selectDefaultPlacement [exNode, exNode] (exInfrastructure (Some \<lparr>PlatformType = ''None''\<rparr>))
     = Return ''Workers'' \<and>
   selectDefaultPlacement [] (exInfrastructure None) = Return ''Workers'' \<and>
   list_all (setsPlacement ''ControlPlane'')
     (issued (ingressConfigs (exOperator (Some \<lparr>PlatformType = ''None''\<rparr>) [] []))
        (ingressConfigs (snd (handleSingleNode4Dot11Upgrade clusterName clusterName
                                (exOperator (Some \<lparr>PlatformType = ''None''\<rparr>) [] []))))) \<and>
   (\<exists>o3 stored.
      handleSingleNode4Dot11Upgrade clusterName clusterName
        (exOperator (Some \<lparr>PlatformType = ''None''\<rparr>) [] []) = (Return None, o3) \<and>
      filter (\<lambda>x. isWrite (fst x))
        (issued (ingressConfigs (exOperator (Some \<lparr>PlatformType = ''None''\<rparr>) [] []))
           (ingressConfigs o3))
        = [(StatusPatchCall (exIngress [] ''ControlPlane''), None)] \<and>
      map_of (objs (ingressConfigs o3)) clusterName = Some stored \<and>
      DefaultPlacement (IngressStatus stored) = ''ControlPlane'') \<and>
   (\<exists>o3 stored.
      handleSingleNode4Dot11Upgrade clusterName clusterName
        (exOperator (Some \<lparr>PlatformType = ''AWS''\<rparr>) [] []) = (Return None, o3) \<and>
      map_of (objs (ingressConfigs o3)) clusterName = Some stored \<and>
      DefaultPlacement (IngressStatus stored) = ''Workers'')"
proof -
  let ?o = "exOperator (Some \<lparr>PlatformType = ''None''\<rparr>) [] []"
  let ?i = "exInfrastructure (Some \<lparr>PlatformType = ''None''\<rparr>)"
  obtain out o2 where r: "handleSingleNode4Dot11Upgrade clusterName clusterName ?o = (out, o2)"
    by (cases "handleSingleNode4Dot11Upgrade clusterName clusterName ?o")
  have g: "clientGet clusterName (infrastructures ?o)
             = (Inr ?i, (infrastructures ?o)\<lparr>calls := [(GetCall clusterName, None)]\<rparr>)"
    by (simp add: store_defs example_defs)
  have l: "clientList (nodes ?o) = (Inr [exNode], (nodes ?o)\<lparr>calls := [(ListCall, None)]\<rparr>)"
    by (simp add: store_defs example_defs)
  have c: "singleNodeNonePlatform [exNode] ?i"
    by (simp add: singleNodeNonePlatform_def singleNodeSingleReplica_def exInfrastructure_def
        SingleReplicaTopologyMode_def NonePlatformType_def)
  have a: "selectDefaultPlacement [exNode] ?i = Return ''ControlPlane''"
    using placement_selection [of ?i "[exNode]"]
    by (simp add: exInfrastructure_def SingleReplicaTopologyMode_def NonePlatformType_def
        DefaultPlacementControlPlane_def)
  have b: "selectDefaultPlacement [exNode] (exInfrastructure (Some \<lparr>PlatformType = ''AWS''\<rparr>))
             = Return ''Workers''"
    using placement_selection [of "exInfrastructure (Some \<lparr>PlatformType = ''AWS''\<rparr>)" "[exNode]"]
    by (simp add: exInfrastructure_def SingleReplicaTopologyMode_def NonePlatformType_def
        DefaultPlacementWorkers_def)
  have d: "selectDefaultPlacement [exNode, exNode] ?i = Return ''Workers''"
    using placement_selection [of ?i "[exNode, exNode]"]
    by (simp add: exInfrastructure_def DefaultPlacementWorkers_def)
  have e: "selectDefaultPlacement [] (exInfrastructure None) = Return ''Workers''"
    using placement_selection [of "exInfrastructure None" "[]"]
    by (simp add: singleNodeSingleReplica_def DefaultPlacementWorkers_def)
  have f: "list_all (setsPlacement ''ControlPlane'')
             (issued (ingressConfigs ?o) (ingressConfigs o2))"
    using placement_selection [of ?i "[exNode]" clusterName clusterName ?o out o2] r g l c
    by (simp add: DefaultPlacementControlPlane_def)
  have pre: "fault (infrastructures (exOperator ps [] [])) = None"
    "map_of (objs (infrastructures (exOperator ps [] []))) clusterName = Some (exInfrastructure ps)"
    "wellKeyed (ingressConfigs (exOperator ps [] []))"
    "map_of (objs (ingressConfigs (exOperator ps [] []))) clusterName = Some (exIngress [] [])"
    "DefaultPlacement (IngressStatus (exIngress [] [])) = []"
    "faults (ingressConfigs (exOperator ps [] [])) i = None"
    "fault (nodes (exOperator ps [] [])) = None"
    "map snd (objs (nodes (exOperator ps [] []))) = [exNode]" for ps i
    by (simp_all add: fault_def wellKeyed_def objKey_def example_defs)
  have w: "(exIngress [] [])\<lparr>IngressStatus := (IngressStatus (exIngress [] []))
             \<lparr>DefaultPlacement := q\<rparr>\<rparr> = exIngress [] q" for q
    by (simp add: exIngress_def)
  have t: "PlatformType \<lparr>PlatformType = ''None''\<rparr> = NonePlatformType"
    "PlatformType \<lparr>PlatformType = ''AWS''\<rparr> \<noteq> NonePlatformType"
    "ControlPlaneTopology (InfrastructureStatus (exInfrastructure ps)) = SingleReplicaTopologyMode"
    "InfrastructureTopology (InfrastructureStatus (exInfrastructure ps)) = SingleReplicaTopologyMode"
    "PlatformStatus (InfrastructureStatus (exInfrastructure ps)) = ps" for ps
    by (simp_all add: NonePlatformType_def SingleReplicaTopologyMode_def exInfrastructure_def)
  have hyp: "fault (infrastructures (exOperator ps [] [])) = None \<and>
      map_of (objs (infrastructures (exOperator ps [] []))) clusterName
        = Some (exInfrastructure ps) \<and>
      wellKeyed (ingressConfigs (exOperator ps [] [])) \<and>
      map_of (objs (ingressConfigs (exOperator ps [] []))) clusterName = Some (exIngress [] []) \<and>
      DefaultPlacement (IngressStatus (exIngress [] [])) = [] \<and>
      faults (ingressConfigs (exOperator ps [] []))
        (length (calls (ingressConfigs (exOperator ps [] [])))) = None \<and>
      faults (ingressConfigs (exOperator ps [] []))
        (length (calls (ingressConfigs (exOperator ps [] []))) + 1) = None \<and>
      faults (ingressConfigs (exOperator ps [] []))
        (length (calls (ingressConfigs (exOperator ps [] []))) + 2) = None \<and>
      fault (nodes (exOperator ps [] [])) = None \<and>
      [exNode] = map snd (objs (nodes (exOperator ps [] []))) \<and>
      (PlatformStatus (InfrastructureStatus (exInfrastructure ps)) \<noteq> None \<or>
       \<not> singleNodeSingleReplica [exNode] (exInfrastructure ps))"
    if "ps \<noteq> None" for ps
    using that by (simp add: pre t)
  note c5 = placement_selection
    [where infraName = clusterName and ingressName = clusterName
       and ingressConfig = "exIngress [] []" and items = "[exNode]",
     THEN conjunct2, THEN conjunct2, THEN conjunct2, THEN conjunct2, THEN mp]
  have s1: "\<exists>o3 stored.
      handleSingleNode4Dot11Upgrade clusterName clusterName ?o = (Return None, o3) \<and>
      filter (\<lambda>x. isWrite (fst x)) (issued (ingressConfigs ?o) (ingressConfigs o3))
        = [(StatusPatchCall (exIngress [] ''ControlPlane''), None)] \<and>
      map_of (objs (ingressConfigs o3)) clusterName = Some stored \<and>
      DefaultPlacement (IngressStatus stored) = ''ControlPlane''"
    using c5 [OF hyp, of "Some \<lparr>PlatformType = ''None''\<rparr>"]
    by (auto simp: t w NonePlatformType_def DefaultPlacementControlPlane_def)
  let ?q = "exOperator (Some \<lparr>PlatformType = ''AWS''\<rparr>) [] []"
  have s2: "\<exists>o3 stored.
      handleSingleNode4Dot11Upgrade clusterName clusterName ?q = (Return None, o3) \<and>
      map_of (objs (ingressConfigs o3)) clusterName = Some stored \<and>
      DefaultPlacement (IngressStatus stored) = ''Workers''"
    using c5 [OF hyp, of "Some \<lparr>PlatformType = ''AWS''\<rparr>"]
    by (auto simp: t NonePlatformType_def DefaultPlacementWorkers_def)
  show ?thesis
    using a b d e f r s1 s2 by simp
qed

end
